theory Spec2Isabelle
  imports Main "HOL-Library.Sublist"
begin

section \<open>Strings as the source uses them\<close>

text \<open>
  Python strings are modelled as \<^typ>\<open>string\<close>. The source uses four string operations:
  the substring test \<^verbatim>\<open>p in s\<close>, \<^verbatim>\<open>s.lower()\<close>, \<^verbatim>\<open>s.split("/")[-1]\<close> and one
  anchored regular expression. Lower-casing is modelled on the ASCII letters, which is
  all that a test for the substring \<^verbatim>\<open>error\<close> can observe.
\<close>

text \<open>\<^verbatim>\<open>p in s\<close> on strings: \<open>p\<close> occurs in \<open>s\<close> as a contiguous block.\<close>

fun py_in :: "string \<Rightarrow> string \<Rightarrow> bool" where
  "py_in p [] = (p = [])"
| "py_in p (c # cs) = (prefix p (c # cs) \<or> py_in p cs)"

definition lower_char :: "char \<Rightarrow> char" where
  "lower_char c =
     (case map_of (zip ''ABCDEFGHIJKLMNOPQRSTUVWXYZ'' ''abcdefghijklmnopqrstuvwxyz'') c of
        None \<Rightarrow> c
      | Some l \<Rightarrow> l)"

definition lower :: "string \<Rightarrow> string" where
  "lower s = map lower_char s"

text \<open>
  \<^verbatim>\<open>s.split(d)\<close> for a one-character separator: the list of the pieces between the
  separators; it is never empty, so \<^verbatim>\<open>[-1]\<close> on it cannot raise.
\<close>

fun py_split :: "char \<Rightarrow> string \<Rightarrow> string list" where
  "py_split d [] = [[]]"
| "py_split d (c # cs) =
     (if c = d then [] # py_split d cs
      else (case py_split d cs of [] \<Rightarrow> [[c]] | w # ws \<Rightarrow> (c # w) # ws))"

definition last_component :: "string \<Rightarrow> string" where
  "last_component s = last (py_split CHR ''/'' s)"

text \<open>
  \<^verbatim>\<open>re.match(r'Host EC2 \(instance .+?\) (stopped|terminated)\.', s)\<close>: the match is
  anchored at the start of \<open>s\<close> only; \<^verbatim>\<open>.\<close> is any character but the newline; the
  lazy \<^verbatim>\<open>+?\<close> matches one or more of them, and backtracking tries every length.
  \<open>re_tail\<close> is the rest of the pattern after at least one character of \<^verbatim>\<open>.+?\<close>.
\<close>

fun re_tail :: "string \<Rightarrow> bool" where
  "re_tail [] = False"
| "re_tail (c # cs) =
     (prefix '') stopped.'' (c # cs) \<or> prefix '') terminated.'' (c # cs)
      \<or> (c \<noteq> CHR 0x0A \<and> re_tail cs))"

definition re_match_host :: "string \<Rightarrow> bool" where
  "re_match_host s =
     (prefix ''Host EC2 (instance '' s \<and>
      (case drop 19 s of [] \<Rightarrow> False | c # cs \<Rightarrow> c \<noteq> CHR 0x0A \<and> re_tail cs))"

text \<open>Truthiness of an optional string (\<^verbatim>\<open>None\<close> and \<^verbatim>\<open>''\<close> are falsy) and of an optional list.\<close>

definition truthy :: "'a list option \<Rightarrow> bool" where
  "truthy x = (case x of None \<Rightarrow> False | Some v \<Rightarrow> v \<noteq> [])"

text \<open>\<^verbatim>\<open>d.get(k, default)\<close> on an optional field.\<close>

definition get_default :: "'a option \<Rightarrow> 'a \<Rightarrow> 'a" where
  "get_default x d = (case x of None \<Rightarrow> d | Some v \<Rightarrow> v)"

section \<open>Responses of the container service\<close>

text \<open>
  The failure objects of a response. The source reads \<^verbatim>\<open>failure['reason']\<close> by subscript
  in \<^verbatim>\<open>should_retry\<close> and otherwise only counts the failures.
\<close>

record failure =
  f_arn :: string
  f_reason :: string

text \<open>The \<^verbatim>\<open>run_task\<close> response: the source reads \<^verbatim>\<open>response['failures']\<close> and
  \<^verbatim>\<open>response['tasks'][0]['taskArn']\<close>.\<close>

record started_task =
  taskArn :: string

record run_task_response =
  r_failures :: "failure list"
  r_tasks :: "started_task list"

text \<open>
  The \<^verbatim>\<open>describe_tasks\<close> response. The source reads it partly with \<^verbatim>\<open>get\<close> and a
  default (\<^verbatim>\<open>failures\<close>, \<^verbatim>\<open>stoppedReason\<close>, \<^verbatim>\<open>lastStatus\<close>, \<^verbatim>\<open>reason\<close>) and partly by
  subscript (\<^verbatim>\<open>tasks\<close>, \<^verbatim>\<open>containers\<close>, \<^verbatim>\<open>exitCode\<close>), so every key is optional here:
  \<open>None\<close> is the absent key, and a subscript on an absent key is the \<^verbatim>\<open>KeyError\<close> of the
  source. The service omits \<^verbatim>\<open>exitCode\<close> for a container that never ran.
\<close>

record container =
  c_lastStatus :: "string option"
  c_exitCode :: "int option"
  c_reason :: "string option"

record task =
  t_stoppedReason :: "string option"
  t_containers :: "container list option"

record describe_tasks_response =
  d_failures :: "failure list option"
  d_tasks :: "task list option"

section \<open>Exceptions\<close>

text \<open>
  The five places where \<^verbatim>\<open>_check_success_task\<close> raises \<^verbatim>\<open>AirflowException\<close>, each with
  the value its message is formatted from.
\<close>

datatype airflow_message =
    Response describe_tasks_response
  | Host_Instance_Terminated string
  | Not_In_Success_State task
  | Still_Pending task
  | Error_During_Launching string

datatype exn =
    ECSOperatorError "failure list" run_task_response
  | AirflowException airflow_message
  | KeyError string
  | IndexError
  | AttributeError string
  | OtherException string

section \<open>The retry predicate\<close>

text \<open>
  \<^verbatim>\<open>any(q in failure['reason'] for q in ['RESOURCE:MEMORY', 'RESOURCE:CPU']
        for failure in exception.failures)\<close>: the generator runs through the markers in the
  outer loop and through the failures in the inner one.
\<close>

definition should_retry :: "exn \<Rightarrow> bool" where
  "should_retry exception =
     (case exception of
        ECSOperatorError failures response \<Rightarrow>
          list_ex (\<lambda>b. b)
            (concat (map (\<lambda>quota_reason. map (\<lambda>failure. py_in quota_reason (f_reason failure)) failures)
                      [''RESOURCE:MEMORY'', ''RESOURCE:CPU'']))
      | _ \<Rightarrow> False)"

section \<open>Evaluating the stopped task\<close>

text \<open>
  The condition of the first branch of the container loop,
  \<^verbatim>\<open>container.get('lastStatus') == 'STOPPED' and container['exitCode'] != 0\<close>:
  the right operand is evaluated only when the left one holds.
\<close>

definition stopped_nonzero :: "container \<Rightarrow> exn + bool" where
  "stopped_nonzero c =
     (if c_lastStatus c = Some ''STOPPED''
      then (case c_exitCode c of None \<Rightarrow> Inl (KeyError ''exitCode'') | Some n \<Rightarrow> Inr (n \<noteq> 0))
      else Inr False)"

fun check_containers :: "task \<Rightarrow> container list \<Rightarrow> exn + unit" where
  "check_containers t [] = Inr ()"
| "check_containers t (c # cs) =
     (case stopped_nonzero c of
        Inl e \<Rightarrow> Inl e
      | Inr True \<Rightarrow> Inl (AirflowException (Not_In_Success_State t))
      | Inr False \<Rightarrow>
          if c_lastStatus c = Some ''PENDING''
          then Inl (AirflowException (Still_Pending t))
          else if py_in ''error'' (lower (get_default (c_reason c) ''''))
          then Inl (AirflowException (Error_During_Launching (lower (get_default (c_reason c) ''''))))
          else check_containers t cs)"

fun check_tasks :: "task list \<Rightarrow> exn + unit" where
  "check_tasks [] = Inr ()"
| "check_tasks (t # ts) =
     (if re_match_host (get_default (t_stoppedReason t) '''')
      then Inl (AirflowException (Host_Instance_Terminated (get_default (t_stoppedReason t) '''')))
      else (case t_containers t of
              None \<Rightarrow> Inl (KeyError ''containers'')
            | Some containers \<Rightarrow>
                (case check_containers t containers of
                   Inl e \<Rightarrow> Inl e
                 | Inr _ \<Rightarrow> check_tasks ts)))"

text \<open>The checks of \<^verbatim>\<open>_check_success_task\<close> on the response, from the test of the
  top-level failures on.\<close>

definition check_response :: "describe_tasks_response \<Rightarrow> exn + unit" where
  "check_response response =
     (if length (get_default (d_failures response) []) > 0
      then Inl (AirflowException (Response response))
      else (case d_tasks response of
              None \<Rightarrow> Inl (KeyError ''tasks'')
            | Some tasks \<Rightarrow> check_tasks tasks))"

section \<open>The operator, the services and the state\<close>

text \<open>Opaque structured values that the operator passes through to the service.\<close>

datatype json =
    JNull
  | JBool bool
  | JInt int
  | JStr string
  | JList "json list"
  | JDict "(string \<times> json) list"

record log_event =
  timestamp :: int
  message :: string

datatype aws_hook = AwsBaseHook "string option" string "string option"

datatype ecs_client = EcsClient

text \<open>
  The attributes of an \<^verbatim>\<open>ECSOperator\<close>: those that \<^verbatim>\<open>__init__\<close> sets, and the four of
  \<^verbatim>\<open>BaseOperator\<close> that the source reads (\<^verbatim>\<open>owner\<close>, \<^verbatim>\<open>task_id\<close>, \<^verbatim>\<open>dag_id\<close>,
  \<^verbatim>\<open>do_xcom_push\<close>).
\<close>

record ecs_operator =
  aws_conn_id :: "string option"
  region_name :: "string option"
  task_definition :: string
  cluster :: string
  overrides :: json
  launch_type :: string
  capacity_provider_strategy :: "json list option"
  task_group :: "string option"
  placement_constraints :: "json list option"
  placement_strategy :: "json list option"
  platform_version :: string
  network_configuration :: "json option"
  tags :: "(string \<times> string) list option"
  awslogs_group :: "string option"
  awslogs_stream_prefix :: "string option"
  awslogs_region :: "string option"
  propagate_tags :: "string option"
  reattach :: bool
  hook :: "aws_hook option"
  client :: "ecs_client option"
  arn :: "string option"
  retry_args :: "json option"
  owner :: string
  task_id :: string
  dag_id :: string
  do_xcom_push :: bool

text \<open>The keyword arguments of \<^verbatim>\<open>__init__\<close>, with the \<^verbatim>\<open>BaseOperator\<close> ones among them.\<close>

record ecs_args =
  a_task_definition :: string
  a_cluster :: string
  a_overrides :: json
  a_aws_conn_id :: "string option"
  a_region_name :: "string option"
  a_launch_type :: string
  a_capacity_provider_strategy :: "json list option"
  a_group :: "string option"
  a_placement_constraints :: "json list option"
  a_placement_strategy :: "json list option"
  a_platform_version :: string
  a_network_configuration :: "json option"
  a_tags :: "(string \<times> string) list option"
  a_awslogs_group :: "string option"
  a_awslogs_region :: "string option"
  a_awslogs_stream_prefix :: "string option"
  a_propagate_tags :: "string option"
  a_quota_retry :: "json option"
  a_reattach :: bool
  a_owner :: string
  a_task_id :: string
  a_dag_id :: string
  a_do_xcom_push :: bool

definition init :: "ecs_args \<Rightarrow> ecs_operator" where
  "init a =
     \<lparr> aws_conn_id = a_aws_conn_id a,
       region_name = a_region_name a,
       task_definition = a_task_definition a,
       cluster = a_cluster a,
       overrides = a_overrides a,
       launch_type = a_launch_type a,
       capacity_provider_strategy = a_capacity_provider_strategy a,
       task_group = a_group a,
       placement_constraints = a_placement_constraints a,
       placement_strategy = a_placement_strategy a,
       platform_version = a_platform_version a,
       network_configuration = a_network_configuration a,
       tags = a_tags a,
       awslogs_group = a_awslogs_group a,
       awslogs_stream_prefix = a_awslogs_stream_prefix a,
       awslogs_region =
         (if a_awslogs_region a = None then a_region_name a else a_awslogs_region a),
       propagate_tags = a_propagate_tags a,
       reattach = a_reattach a,
       hook = None,
       client = None,
       arn = None,
       retry_args = a_quota_retry a,
       owner = a_owner a,
       task_id = a_task_id a,
       dag_id = a_dag_id a,
       do_xcom_push = a_do_xcom_push a \<rparr>"

text \<open>
  The calls that leave the process, in the order in which they are issued: the six
  operations of the container service's client (the wait is the \<^verbatim>\<open>tasks_stopped\<close>
  waiter) and the read of the log backend.
\<close>

datatype call =
    DescribeTaskDefinition string
  | ListTasks string string string
  | RunTask "(string \<times> json) list"
  | WaitTasksStopped string "string list"
  | DescribeTasks string "string list"
  | StopTask string string string
  | GetLogEvents string string

text \<open>
  What the services answer during one invocation, as functions of the arguments of the
  call. The wait returns when the task has stopped; how long that takes is not part of
  the model.
\<close>

record services =
  describe_task_definition :: "string \<Rightarrow> string"
  list_tasks :: "string \<Rightarrow> string \<Rightarrow> string \<Rightarrow> string list"
  run_task :: "(string \<times> json) list \<Rightarrow> run_task_response"
  describe_tasks :: "string \<Rightarrow> string list \<Rightarrow> describe_tasks_response"
  get_log_events :: "string \<Rightarrow> string \<Rightarrow> log_event list"

text \<open>
  The XCom table of the current run, keyed by \<^verbatim>\<open>dag_id\<close>, \<^verbatim>\<open>task_id\<close> and \<^verbatim>\<open>key\<close>.
  One invocation has one execution date (\<^verbatim>\<open>context["ti"].execution_date\<close>), which is
  the date \<^verbatim>\<open>XCom.set\<close> receives.
\<close>

type_synonym xcom_table = "string \<times> string \<times> string \<Rightarrow> string option"

record exec_context =
  execution_date :: string

record state =
  self :: ecs_operator
  calls :: "call list"
  xcom :: xcom_table

type_synonym 'a result = "(exn + 'a) \<times> state"

text \<open>Sequencing: an exception ends the run and keeps the state reached so far.\<close>

definition and_then :: "'a result \<Rightarrow> ('a \<Rightarrow> state \<Rightarrow> 'b result) \<Rightarrow> 'b result" where
  "and_then r f = (case r of (Inl e, s) \<Rightarrow> (Inl e, s) | (Inr x, s) \<Rightarrow> f x s)"

definition issue :: "call \<Rightarrow> state \<Rightarrow> state" where
  "issue c s = s\<lparr>calls := calls s @ [c]\<rparr>"

definition REATTACH_XCOM_KEY :: string where
  "REATTACH_XCOM_KEY = ''ecs_task_arn''"

text \<open>\<^verbatim>\<open>REATTACH_XCOM_TASK_ID_TEMPLATE.format(task_id=...)\<close>\<close>

definition REATTACH_XCOM_TASK_ID_TEMPLATE :: "string \<Rightarrow> string" where
  "REATTACH_XCOM_TASK_ID_TEMPLATE tid = tid @ ''_task_arn''"

text \<open>
  Modelled from the spec: \<^verbatim>\<open>XCom.set\<close> is not in the source file. The spec gives the
  correlation store the operation \<^verbatim>\<open>put(key, value)\<close>, which overwrites; the key is made of
  the \<^verbatim>\<open>dag_id\<close>, the \<^verbatim>\<open>task_id\<close> and the \<^verbatim>\<open>key\<close> that the source passes.
\<close>

definition xcom_put :: "string \<times> string \<times> string \<Rightarrow> string \<Rightarrow> xcom_table \<Rightarrow> xcom_table" where
  "xcom_put k v tab = tab(k \<mapsto> v)"

text \<open>
  Modelled from the spec: \<^verbatim>\<open>BaseOperator.xcom_pull\<close> is not in the source file. The spec
  gives the correlation store the operation \<^verbatim>\<open>get(key) -> value|absent\<close>.
\<close>

definition xcom_get :: "string \<times> string \<times> string \<Rightarrow> xcom_table \<Rightarrow> string option" where
  "xcom_get k tab = tab k"

text \<open>\<^verbatim>\<open>_xcom_set\<close> and the call \<^verbatim>\<open>self.xcom_pull(task_ids=..., key=...)\<close> of the source.\<close>

definition xcom_set :: "exec_context \<Rightarrow> string \<Rightarrow> string \<Rightarrow> string \<Rightarrow> state \<Rightarrow> state" where
  "xcom_set ctx key val tid s = s\<lparr>xcom := xcom_put (dag_id (self s), tid, key) val (xcom s)\<rparr>"

definition xcom_pull :: "string \<Rightarrow> string \<Rightarrow> state \<Rightarrow> string option" where
  "xcom_pull task_ids key s = xcom_get (dag_id (self s), task_ids, key) (xcom s)"

text \<open>
  \<^verbatim>\<open>session.query(XCom).filter(XCom.dag_id == self.dag_id, XCom.task_id == task_id).delete()\<close>:
  every row of that \<^verbatim>\<open>dag_id\<close> and \<^verbatim>\<open>task_id\<close> goes, whatever its key.
\<close>

definition xcom_del :: "string \<Rightarrow> state \<Rightarrow> state" where
  "xcom_del tid s =
     s\<lparr>xcom := (\<lambda>(d, t, k). if d = dag_id (self s) \<and> t = tid then None else xcom s (d, t, k))\<rparr>"

section \<open>The operations of the operator\<close>

text \<open>\<^verbatim>\<open>get_hook\<close> creates the hook once and keeps it.\<close>

definition get_hook :: "state \<Rightarrow> aws_hook \<times> state" where
  "get_hook s =
     (case hook (self s) of
        Some h \<Rightarrow> (h, s)
      | None \<Rightarrow>
          (let h = AwsBaseHook (aws_conn_id (self s)) ''ecs'' (region_name (self s))
           in (h, s\<lparr>self := (self s)\<lparr>hook := Some h\<rparr>\<rparr>)))"

text \<open>
  The request of \<^verbatim>\<open>_start_task\<close>: the dictionary \<^verbatim>\<open>run_opts\<close> in the order in which
  its keys are assigned. No key is assigned twice. \<^verbatim>\<open>if self.capacity_provider_strategy\<close>
  and \<^verbatim>\<open>elif self.launch_type\<close> test truthiness: an empty list and an empty string count
  as not set.
\<close>

definition run_opts :: "ecs_operator \<Rightarrow> (string \<times> json) list" where
  "run_opts op =
     [(''cluster'', JStr (cluster op)),
      (''taskDefinition'', JStr (task_definition op)),
      (''overrides'', overrides op),
      (''startedBy'', JStr (owner op))]
     @ (if truthy (capacity_provider_strategy op)
        then [(''capacityProviderStrategy'', JList (the (capacity_provider_strategy op))),
              (''platformVersion'', JStr (platform_version op))]
        else if launch_type op \<noteq> []
        then [(''launchType'', JStr (launch_type op))]
             @ (if launch_type op = ''FARGATE''
                then [(''platformVersion'', JStr (platform_version op))] else [])
        else [])
     @ (case task_group op of None \<Rightarrow> [] | Some g \<Rightarrow> [(''group'', JStr g)])
     @ (case placement_constraints op of None \<Rightarrow> []
        | Some pc \<Rightarrow> [(''placementConstraints'', JList pc)])
     @ (case placement_strategy op of None \<Rightarrow> []
        | Some ps \<Rightarrow> [(''placementStrategy'', JList ps)])
     @ (case network_configuration op of None \<Rightarrow> []
        | Some nc \<Rightarrow> [(''networkConfiguration'', nc)])
     @ (case tags op of None \<Rightarrow> []
        | Some kvs \<Rightarrow>
            [(''tags'', JList (map (\<lambda>(k, v). JDict [(''key'', JStr k), (''value'', JStr v)]) kvs))])
     @ (case propagate_tags op of None \<Rightarrow> [] | Some pt \<Rightarrow> [(''propagateTags'', JStr pt)])"

definition start_task :: "services \<Rightarrow> exec_context \<Rightarrow> state \<Rightarrow> unit result" where
  "start_task env ctx s =
     (case client (self s) of
        None \<Rightarrow> (Inl (AttributeError ''run_task''), s)
      | Some _ \<Rightarrow>
          (let opts = run_opts (self s);
               s1 = issue (RunTask opts) s;
               response = run_task env opts;
               failures = r_failures response
           in if length failures > 0
              then (Inl (ECSOperatorError failures response), s1)
              else (case r_tasks response of
                      [] \<Rightarrow> (Inl IndexError, s1)
                    | t # _ \<Rightarrow>
                        (let s2 = s1\<lparr>self := (self s1)\<lparr>arn := Some (taskArn t)\<rparr>\<rparr>
                         in if reattach (self s2)
                            then (Inr (),
                                  xcom_set ctx REATTACH_XCOM_KEY (taskArn t)
                                    (REATTACH_XCOM_TASK_ID_TEMPLATE (task_id (self s2))) s2)
                            else (Inr (), s2)))))"

definition try_reattach_task :: "services \<Rightarrow> state \<Rightarrow> unit result" where
  "try_reattach_task env s =
     (case client (self s) of
        None \<Rightarrow> (Inl (AttributeError ''describe_task_definition''), s)
      | Some _ \<Rightarrow>
          (let s1 = issue (DescribeTaskDefinition (task_definition (self s))) s;
               ecs_task_family = describe_task_definition env (task_definition (self s));
               s2 = issue (ListTasks (cluster (self s)) ''RUNNING'' ecs_task_family) s1;
               running_tasks = list_tasks env (cluster (self s)) ''RUNNING'' ecs_task_family;
               previous_task_arn =
                 xcom_pull (REATTACH_XCOM_TASK_ID_TEMPLATE (task_id (self s))) REATTACH_XCOM_KEY s2
           in if (case previous_task_arn of None \<Rightarrow> False | Some a \<Rightarrow> a \<in> set running_tasks)
              then (Inr (), s2\<lparr>self := (self s2)\<lparr>arn := previous_task_arn\<rparr>\<rparr>)
              else (Inr (), s2)))"

definition wait_for_task_ended :: "state \<Rightarrow> unit result" where
  "wait_for_task_ended s =
     (if client (self s) = None \<or> \<not> truthy (arn (self s))
      then (Inr (), s)
      else (Inr (), issue (WaitTasksStopped (cluster (self s)) [the (arn (self s))]) s))"

definition aws_logs_enabled :: "ecs_operator \<Rightarrow> bool" where
  "aws_logs_enabled op = (truthy (awslogs_group op) \<and> truthy (awslogs_stream_prefix op))"

text \<open>The generator \<^verbatim>\<open>_cloudwatch_log_events\<close>, run to its end.\<close>

definition cloudwatch_log_events :: "services \<Rightarrow> state \<Rightarrow> (log_event list) result" where
  "cloudwatch_log_events env s =
     (if aws_logs_enabled (self s)
      then (case arn (self s) of
              None \<Rightarrow> (Inl (AttributeError ''split''), s)
            | Some a \<Rightarrow>
                (let ecs_task_id = last_component a;
                     stream_name = the (awslogs_stream_prefix (self s)) @ ''/'' @ ecs_task_id;
                     grp = the (awslogs_group (self s))
                 in (Inr (get_log_events env grp stream_name),
                     issue (GetLogEvents grp stream_name) s)))
      else (Inr [], s))"

text \<open>
  \<^verbatim>\<open>deque(events, maxlen=1).pop()["message"]\<close> is the message of the last event; the
  \<^verbatim>\<open>IndexError\<close> of \<^verbatim>\<open>pop\<close> on the empty deque is caught and gives \<^verbatim>\<open>None\<close>.
\<close>

definition last_log_message :: "services \<Rightarrow> state \<Rightarrow> (string option) result" where
  "last_log_message env s =
     and_then (cloudwatch_log_events env s)
       (\<lambda>events s'. (case events of
                       [] \<Rightarrow> (Inr None, s')
                     | _ # _ \<Rightarrow> (Inr (Some (message (last events))), s')))"

text \<open>
  \<^verbatim>\<open>_check_success_task\<close>. The log events are fetched and written to the operator's
  log between the \<^verbatim>\<open>describe_tasks\<close> call and the checks; the log lines, and the
  conversion of the timestamps that they show, are not modelled.
\<close>

definition check_success_task :: "services \<Rightarrow> state \<Rightarrow> unit result" where
  "check_success_task env s =
     (if client (self s) = None \<or> \<not> truthy (arn (self s))
      then (Inr (), s)
      else (let s1 = issue (DescribeTasks (cluster (self s)) [the (arn (self s))]) s;
                response = describe_tasks env (cluster (self s)) [the (arn (self s))]
            in and_then (cloudwatch_log_events env s1)
                 (\<lambda>events s2. (check_response response, s2))))"

definition on_kill :: "state \<Rightarrow> unit result" where
  "on_kill s =
     (if client (self s) = None \<or> \<not> truthy (arn (self s))
      then (Inr (), s)
      else (Inr (),
            issue (StopTask (cluster (self s)) (the (arn (self s))) ''Task killed by the user'') s))"

text \<open>\<^verbatim>\<open>execute\<close>; \<^verbatim>\<open>get_conn\<close> of the hook gives the client.\<close>

definition execute :: "services \<Rightarrow> exec_context \<Rightarrow> state \<Rightarrow> (string option) result" where
  "execute env ctx s =
     (let s0 = snd (get_hook s);
          s1 = s0\<lparr>self := (self s0)\<lparr>client := Some EcsClient\<rparr>\<rparr>
      in and_then (if reattach (self s1) then try_reattach_task env s1 else (Inr (), s1))
        (\<lambda>_ s2. and_then (if \<not> truthy (arn (self s2)) then start_task env ctx s2 else (Inr (), s2))
        (\<lambda>_ s3. and_then (wait_for_task_ended s3)
        (\<lambda>_ s4. and_then (check_success_task env s4)
        (\<lambda>_ s5.
           (let s6 = (if reattach (self s5)
                      then xcom_del (REATTACH_XCOM_TASK_ID_TEMPLATE (task_id (self s5))) s5
                      else s5)
            in if do_xcom_push (self s6) then last_log_message env s6 else (Inr None, s6)))))))"

section \<open>Sample runs\<close>

text \<open>Concrete operators, services and responses, for evaluating the operations.\<close>

definition sample_args :: ecs_args where
  "sample_args =
     \<lparr> a_task_definition = ''hello-world'', a_cluster = ''c1'', a_overrides = JDict [],
       a_aws_conn_id = None, a_region_name = Some ''eu-west-1'', a_launch_type = ''EC2'',
       a_capacity_provider_strategy = None, a_group = None, a_placement_constraints = None,
       a_placement_strategy = None, a_platform_version = ''LATEST'',
       a_network_configuration = None, a_tags = None, a_awslogs_group = Some ''logs'',
       a_awslogs_region = None, a_awslogs_stream_prefix = Some ''ecs/hello'',
       a_propagate_tags = None, a_quota_retry = None, a_reattach = True,
       a_owner = ''airflow'', a_task_id = ''run'', a_dag_id = ''dag'', a_do_xcom_push = True \<rparr>"

definition sample_services :: "run_task_response \<Rightarrow> describe_tasks_response \<Rightarrow> services" where
  "sample_services r d =
     \<lparr> describe_task_definition = (\<lambda>_. ''hello''),
       list_tasks = (\<lambda>_ _ _. [''task/old'']),
       run_task = (\<lambda>_. r),
       describe_tasks = (\<lambda>_ _. d),
       get_log_events = (\<lambda>_ _. [\<lparr>timestamp = 1, message = ''start''\<rparr>,
                                 \<lparr>timestamp = 2, message = ''done''\<rparr>]) \<rparr>"

definition sample_state :: "ecs_args \<Rightarrow> xcom_table \<Rightarrow> state" where
  "sample_state a tab = \<lparr> self = init a, calls = [], xcom = tab \<rparr>"

definition started :: run_task_response where
  "started = \<lparr> r_failures = [], r_tasks = [\<lparr>taskArn = ''task/new''\<rparr>] \<rparr>"

definition rejected :: run_task_response where
  "rejected = \<lparr> r_failures = [\<lparr>f_arn = ''container-instance/1'', f_reason = ''RESOURCE:CPU''\<rparr>],
                r_tasks = [] \<rparr>"

definition one_task :: "container \<Rightarrow> task" where
  "one_task c =
     \<lparr> t_stoppedReason = Some ''Essential container in task exited'',
       t_containers = Some [c] \<rparr>"

definition one_container :: "container \<Rightarrow> describe_tasks_response" where
  "one_container c = \<lparr> d_failures = Some [], d_tasks = Some [one_task c] \<rparr>"

definition exited :: "int \<Rightarrow> container" where
  "exited n = \<lparr> c_lastStatus = Some ''STOPPED'', c_exitCode = Some n, c_reason = None \<rparr>"

text \<open>A container that the service stopped before it ran: there is no exit code.\<close>

definition never_ran :: "string option \<Rightarrow> container" where
  "never_ran why = \<lparr> c_lastStatus = Some ''STOPPED'', c_exitCode = None, c_reason = why \<rparr>"

definition sample_ctx :: exec_context where
  "sample_ctx = \<lparr> execution_date = ''2021-01-01'' \<rparr>"

text \<open>
  A run of \<^verbatim>\<open>execute\<close> on a new operator with \<^verbatim>\<open>reattach\<close> on and an empty store: a task
  is started and stops with the container \<open>c\<close>; \<open>push\<close> is \<^verbatim>\<open>do_xcom_push\<close>.
\<close>

definition sample_run :: "bool \<Rightarrow> container \<Rightarrow> (string option) result" where
  "sample_run push c =
     execute (sample_services started (one_container c)) sample_ctx
       (sample_state (sample_args\<lparr>a_do_xcom_push := push\<rparr>) Map.empty)"

text \<open>A store that holds the identifier of a task that is still running.\<close>

definition sample_store :: xcom_table where
  "sample_store = Map.empty((''dag'', ''run_task_arn'', ''ecs_task_arn'') \<mapsto> ''task/old'')"

text \<open>An operator object that holds a client and the handle \<open>h\<close>.\<close>

definition attached :: "string option \<Rightarrow> state \<Rightarrow> state" where
  "attached h s = s\<lparr>self := (self s)\<lparr>client := Some EcsClient, arn := h\<rparr>\<rparr>"

section \<open>The verdict, as the specification words it\<close>

datatype failure_kind =
    Service_Reported_Failure
  | Host_Terminated
  | Container_Nonzero_Exit
  | Container_Still_Pending
  | Container_Launch_Error

datatype verdict = Success | Failure failure_kind

text \<open>
  The verdict that an outcome of \<^verbatim>\<open>_check_success_task\<close> stands for: returning is success,
  each of the five \<^verbatim>\<open>AirflowException\<close>s is one classified failure, and any other
  exception is no verdict.
\<close>

fun verdict_of :: "exn + unit \<Rightarrow> verdict option" where
  "verdict_of (Inr _) = Some Success"
| "verdict_of (Inl (AirflowException (Response _))) = Some (Failure Service_Reported_Failure)"
| "verdict_of (Inl (AirflowException (Host_Instance_Terminated _))) = Some (Failure Host_Terminated)"
| "verdict_of (Inl (AirflowException (Not_In_Success_State _))) = Some (Failure Container_Nonzero_Exit)"
| "verdict_of (Inl (AirflowException (Still_Pending _))) = Some (Failure Container_Still_Pending)"
| "verdict_of (Inl (AirflowException (Error_During_Launching _))) = Some (Failure Container_Launch_Error)"
| "verdict_of (Inl _) = None"

text \<open>
  The three checks on a container, in the order of the specification: stopped with an
  exit code that is not zero, still pending, a reason that contains \<^verbatim>\<open>error\<close> in any case.
\<close>

definition spec_container :: "container \<Rightarrow> failure_kind option" where
  "spec_container c =
     (if c_lastStatus c = Some ''STOPPED'' \<and> (case c_exitCode c of None \<Rightarrow> False | Some n \<Rightarrow> n \<noteq> 0)
      then Some Container_Nonzero_Exit
      else if c_lastStatus c = Some ''PENDING''
      then Some Container_Still_Pending
      else if py_in ''error'' (lower (get_default (c_reason c) ''''))
      then Some Container_Launch_Error
      else None)"

text \<open>The first failure in a sequence of checks.\<close>

fun first_failure :: "failure_kind option list \<Rightarrow> failure_kind option" where
  "first_failure [] = None"
| "first_failure (None # ks) = first_failure ks"
| "first_failure (Some k # ks) = Some k"

definition spec_task :: "task \<Rightarrow> failure_kind option" where
  "spec_task t =
     (if re_match_host (get_default (t_stoppedReason t) '''')
      then Some Host_Terminated
      else first_failure (map spec_container (get_default (t_containers t) [])))"

definition spec_verdict :: "describe_tasks_response \<Rightarrow> verdict" where
  "spec_verdict response =
     (if get_default (d_failures response) [] \<noteq> []
      then Failure Service_Reported_Failure
      else (case first_failure (map spec_task (get_default (d_tasks response) [])) of
              None \<Rightarrow> Success
            | Some k \<Rightarrow> Failure k))"

text \<open>
  The responses in which every key that \<^verbatim>\<open>_check_success_task\<close> reads by subscript is
  there: \<^verbatim>\<open>tasks\<close>, the \<^verbatim>\<open>containers\<close> of every task, and the \<^verbatim>\<open>exitCode\<close> of every stopped
  container.
\<close>

definition exit_code_present :: "container \<Rightarrow> bool" where
  "exit_code_present c = (c_lastStatus c = Some ''STOPPED'' \<longrightarrow> c_exitCode c \<noteq> None)"

definition subscripts_present :: "describe_tasks_response \<Rightarrow> bool" where
  "subscripts_present response =
     (case d_tasks response of
        None \<Rightarrow> False
      | Some tasks \<Rightarrow>
          list_all (\<lambda>t. case t_containers t of
                          None \<Rightarrow> False
                        | Some cs \<Rightarrow> list_all exit_code_present cs) tasks)"

section \<open>Notions for stating the properties\<close>

text \<open>The entry of the correlation store for this operator, and the handle it holds.\<close>

definition reattach_entry :: "ecs_operator \<Rightarrow> string \<times> string \<times> string" where
  "reattach_entry op = (dag_id op, REATTACH_XCOM_TASK_ID_TEMPLATE (task_id op), REATTACH_XCOM_KEY)"

definition stored_handle :: "state \<Rightarrow> string option" where
  "stored_handle s = xcom s (reattach_entry (self s))"

text \<open>The running tasks of the family of the task definition, as the service lists them.\<close>

definition running_tasks :: "services \<Rightarrow> ecs_operator \<Rightarrow> string list" where
  "running_tasks env op =
     list_tasks env (cluster op) ''RUNNING'' (describe_task_definition env (task_definition op))"

definition is_RunTask :: "call \<Rightarrow> bool" where
  "is_RunTask c = (case c of RunTask _ \<Rightarrow> True | _ \<Rightarrow> False)"

text \<open>The stream that \<^verbatim>\<open>_cloudwatch_log_events\<close> reads for the handle \<open>a\<close>, and the
  message of the last element of a sequence of events.\<close>

definition stream_name :: "ecs_operator \<Rightarrow> string \<Rightarrow> string" where
  "stream_name op a = the (awslogs_stream_prefix op) @ ''/'' @ last_component a"

definition last_message :: "log_event list \<Rightarrow> string option" where
  "last_message events = (case events of [] \<Rightarrow> None | _ # _ \<Rightarrow> Some (message (last events)))"

text \<open>
  The first lines of \<^verbatim>\<open>execute\<close>, up to the point where the operator has its handle:
  the client is created, the running task is adopted under \<^verbatim>\<open>reattach\<close>, and a task is
  started when there is no handle yet.
\<close>

definition connect :: "state \<Rightarrow> state" where
  "connect s = (let s0 = snd (get_hook s) in s0\<lparr>self := (self s0)\<lparr>client := Some EcsClient\<rparr>\<rparr>)"

definition launch :: "services \<Rightarrow> exec_context \<Rightarrow> state \<Rightarrow> unit result" where
  "launch env ctx s =
     (let s1 = connect s
      in and_then (if reattach (self s1) then try_reattach_task env s1 else (Inr (), s1))
           (\<lambda>_ s2. if \<not> truthy (arn (self s2)) then start_task env ctx s2 else (Inr (), s2)))"

section \<open>Evaluation rules\<close>

lemmas sample_defs = sample_args_def sample_services_def sample_state_def started_def
  rejected_def one_container_def one_task_def exited_def never_ran_def attached_def init_def
  sample_ctx_def sample_run_def sample_store_def

lemmas string_defs = truthy_def get_default_def last_component_def re_match_host_def
  lower_def lower_char_def REATTACH_XCOM_KEY_def REATTACH_XCOM_TASK_ID_TEMPLATE_def

lemmas xcom_defs = xcom_del_def xcom_set_def xcom_pull_def xcom_get_def xcom_put_def

lemmas op_defs = execute_def and_then_def get_hook_def try_reattach_task_def start_task_def
  wait_for_task_ended_def check_success_task_def on_kill_def issue_def Let_def
  cloudwatch_log_events_def last_log_message_def aws_logs_enabled_def
  check_response_def stopped_nonzero_def run_opts_def

lemmas run_defs = sample_defs op_defs string_defs xcom_defs

section \<open>Strings\<close>

text \<open>\<open>py_in\<close> is the substring relation.\<close>

lemma py_in_sublist: "py_in p s = sublist p s"
  by (induction s) (simp_all add: sublist_Cons_right)

lemma py_split_not_Nil: "py_split d s \<noteq> []"
  by (induction s) (auto split: list.splits)

lemma py_split_no_separator: "d \<notin> set s \<Longrightarrow> py_split d s = [s]"
  by (induction s) auto

lemma length_py_split: "length (py_split d s) = Suc (length (filter (\<lambda>c. c = d) s))"
  by (induction s) (auto split: list.splits)

lemma last_py_split:
  "last (py_split d s) = rev (takeWhile (\<lambda>c. c \<noteq> d) (rev s))"
proof (induction s)
  case Nil
  show ?case by simp
next
  case (Cons c cs)
  show ?case
  proof (cases "d \<in> set cs")
    case False
    then have "takeWhile (\<lambda>c. c \<noteq> d) (rev cs) = rev cs"
      by (intro takeWhile_eq_all_conv [THEN iffD2]) auto
    with False Cons show ?thesis
      using py_split_not_Nil [of d cs]
      by (auto simp: py_split_no_separator takeWhile_append)
  next
    case True
    then have "filter (\<lambda>c. c = d) cs \<noteq> []"
      by (auto simp: filter_empty_conv)
    then have "length (filter (\<lambda>c. c = d) cs) \<ge> 1"
      by (cases "filter (\<lambda>c. c = d) cs") simp_all
    then have "length (py_split d cs) \<ge> 2"
      by (simp add: length_py_split)
    then obtain w v ws where "py_split d cs = w # v # ws"
      by (cases "py_split d cs"; cases "tl (py_split d cs)") auto
    with True Cons show ?thesis
      by (auto simp: takeWhile_append)
  qed
qed

text \<open>The last component of an identifier is its longest suffix without a slash.\<close>

lemma last_component_suffix:
  "last_component a = rev (takeWhile (\<lambda>c. c \<noteq> CHR ''/'') (rev a))"
  by (simp add: last_component_def last_py_split)

lemma re_tail_iff:
  "re_tail s \<longleftrightarrow>
     (\<exists>i rest. CHR 0x0A \<notin> set i
        \<and> (s = i @ '') stopped.'' @ rest \<or> s = i @ '') terminated.'' @ rest))"
proof
  show "re_tail s \<Longrightarrow>
     \<exists>i rest. CHR 0x0A \<notin> set i
        \<and> (s = i @ '') stopped.'' @ rest \<or> s = i @ '') terminated.'' @ rest)"
  proof (induction s)
    case Nil
    then show ?case by simp
  next
    case (Cons c cs)
    from Cons.prems consider
        (stopped) "prefix '') stopped.'' (c # cs)"
      | (terminated) "prefix '') terminated.'' (c # cs)"
      | (more) "c \<noteq> CHR 0x0A" "re_tail cs"
      by auto
    then show ?case
    proof cases
      case stopped
      then obtain rest where "c # cs = '') stopped.'' @ rest"
        unfolding prefix_def by blast
      then have "CHR 0x0A \<notin> set [] \<and> c # cs = [] @ '') stopped.'' @ rest"
        by simp
      then show ?thesis by blast
    next
      case terminated
      then obtain rest where "c # cs = '') terminated.'' @ rest"
        unfolding prefix_def by blast
      then have "CHR 0x0A \<notin> set [] \<and> c # cs = [] @ '') terminated.'' @ rest"
        by simp
      then show ?thesis by blast
    next
      case more
      with Cons.IH obtain i rest where i: "CHR 0x0A \<notin> set i"
        and s: "cs = i @ '') stopped.'' @ rest \<or> cs = i @ '') terminated.'' @ rest"
        by blast
      from i more(1) have "CHR 0x0A \<notin> set (c # i)" by simp
      moreover from s have
        "c # cs = (c # i) @ '') stopped.'' @ rest \<or> c # cs = (c # i) @ '') terminated.'' @ rest"
        by simp
      ultimately show ?thesis by blast
    qed
  qed
next
  assume "\<exists>i rest. CHR 0x0A \<notin> set i
        \<and> (s = i @ '') stopped.'' @ rest \<or> s = i @ '') terminated.'' @ rest)"
  then obtain i rest where i: "CHR 0x0A \<notin> set i"
    and s: "s = i @ '') stopped.'' @ rest \<or> s = i @ '') terminated.'' @ rest"
    by blast
  then show "re_tail s"
    by (induction i arbitrary: s) auto
qed

text \<open>
  What the regular expression accepts: the fixed head, an instance identifier of at
  least one character without a newline, and \<^verbatim>\<open>) stopped.\<close> or \<^verbatim>\<open>) terminated.\<close>;
  anything may follow.
\<close>

lemma re_match_host_iff:
  "re_match_host s \<longleftrightarrow>
     (\<exists>i rest. i \<noteq> [] \<and> CHR 0x0A \<notin> set i
        \<and> (s = ''Host EC2 (instance '' @ i @ '') stopped.'' @ rest
           \<or> s = ''Host EC2 (instance '' @ i @ '') terminated.'' @ rest))"
proof
  assume "re_match_host s"
  then obtain zs where s: "s = ''Host EC2 (instance '' @ zs"
    and z: "case zs of [] \<Rightarrow> False | c # cs \<Rightarrow> c \<noteq> CHR 0x0A \<and> re_tail cs"
    unfolding re_match_host_def prefix_def by auto
  from z obtain c cs where zs: "zs = c # cs" and c: "c \<noteq> CHR 0x0A" and t: "re_tail cs"
    by (cases zs) simp_all
  from t obtain i rest where i: "CHR 0x0A \<notin> set i"
    and cs: "cs = i @ '') stopped.'' @ rest \<or> cs = i @ '') terminated.'' @ rest"
    unfolding re_tail_iff by blast
  have "c # i \<noteq> []" "CHR 0x0A \<notin> set (c # i)"
    using c i by simp_all
  moreover have "s = ''Host EC2 (instance '' @ (c # i) @ '') stopped.'' @ rest
           \<or> s = ''Host EC2 (instance '' @ (c # i) @ '') terminated.'' @ rest"
    using s zs cs by auto
  ultimately show "\<exists>i rest. i \<noteq> [] \<and> CHR 0x0A \<notin> set i
        \<and> (s = ''Host EC2 (instance '' @ i @ '') stopped.'' @ rest
           \<or> s = ''Host EC2 (instance '' @ i @ '') terminated.'' @ rest)"
    by blast
next
  assume "\<exists>i rest. i \<noteq> [] \<and> CHR 0x0A \<notin> set i
        \<and> (s = ''Host EC2 (instance '' @ i @ '') stopped.'' @ rest
           \<or> s = ''Host EC2 (instance '' @ i @ '') terminated.'' @ rest)"
  then obtain i rest where i: "i \<noteq> []" "CHR 0x0A \<notin> set i"
    and s: "s = ''Host EC2 (instance '' @ i @ '') stopped.'' @ rest
           \<or> s = ''Host EC2 (instance '' @ i @ '') terminated.'' @ rest"
    by blast
  from i(1) obtain c cs where ccs: "i = c # cs" by (cases i) simp_all
  with i(2) have c: "c \<noteq> CHR 0x0A" and n: "CHR 0x0A \<notin> set cs" by auto
  from n have t: "re_tail (cs @ '') stopped.'' @ rest)" "re_tail (cs @ '') terminated.'' @ rest)"
    unfolding re_tail_iff by blast+
  from s show "re_match_host s"
  proof
    assume "s = ''Host EC2 (instance '' @ i @ '') stopped.'' @ rest"
    with ccs c t(1) show ?thesis by (simp add: re_match_host_def)
  next
    assume "s = ''Host EC2 (instance '' @ i @ '') terminated.'' @ rest"
    with ccs c t(2) show ?thesis by (simp add: re_match_host_def)
  qed
qed

section \<open>The start request\<close>

lemma map_of_optional:
  "k \<noteq> k' \<Longrightarrow> map_of (case x of None \<Rightarrow> [] | Some v \<Rightarrow> [(k', f v)]) k = None"
  by (cases x) simp_all

lemma map_of_append_None:
  "map_of ys k = None \<Longrightarrow> map_of (xs @ ys) k = map_of xs k"
  by (cases "map_of xs k") (simp_all add: map_add_def)

lemma map_of_prepend_None:
  "map_of xs k = None \<Longrightarrow> map_of (xs @ ys) k = map_of ys k"
  by (simp add: map_add_def)

lemma map_of_run_opts_launch:
  assumes "k = ''capacityProviderStrategy'' \<or> k = ''platformVersion'' \<or> k = ''launchType''"
  shows "map_of (run_opts op) k =
     map_of (if truthy (capacity_provider_strategy op)
        then [(''capacityProviderStrategy'', JList (the (capacity_provider_strategy op))),
              (''platformVersion'', JStr (platform_version op))]
        else if launch_type op \<noteq> []
        then [(''launchType'', JStr (launch_type op))]
             @ (if launch_type op = ''FARGATE''
                then [(''platformVersion'', JStr (platform_version op))] else [])
        else []) k"
proof -
  have tl: "map_of ((case task_group op of None \<Rightarrow> [] | Some g \<Rightarrow> [(''group'', JStr g)])
     @ (case placement_constraints op of None \<Rightarrow> []
        | Some pc \<Rightarrow> [(''placementConstraints'', JList pc)])
     @ (case placement_strategy op of None \<Rightarrow> []
        | Some ps \<Rightarrow> [(''placementStrategy'', JList ps)])
     @ (case network_configuration op of None \<Rightarrow> []
        | Some nc \<Rightarrow> [(''networkConfiguration'', nc)])
     @ (case tags op of None \<Rightarrow> []
        | Some kvs \<Rightarrow>
            [(''tags'', JList (map (\<lambda>(k, v). JDict [(''key'', JStr k), (''value'', JStr v)]) kvs))])
     @ (case propagate_tags op of None \<Rightarrow> [] | Some pt \<Rightarrow> [(''propagateTags'', JStr pt)])) k = None"
    using assms by (elim disjE) (simp_all add: map_of_optional map_add_def)
  have hd: "map_of [(''cluster'', JStr (cluster op)),
      (''taskDefinition'', JStr (task_definition op)),
      (''overrides'', overrides op),
      (''startedBy'', JStr (owner op))] k = None"
    using assms by (elim disjE) simp_all
  show ?thesis
    unfolding run_opts_def
    by (simp only: map_of_prepend_None [OF hd] map_of_append_None [OF tl])
qed

lemma optional_key:
  assumes "fst ` set ys \<subseteq> S" and "k \<notin> S" and "distinct (map fst ys)"
  shows "fst ` set ((case x of None \<Rightarrow> [] | Some v \<Rightarrow> [(k, f v)]) @ ys) \<subseteq> insert k S
         \<and> distinct (map fst ((case x of None \<Rightarrow> [] | Some v \<Rightarrow> [(k, f v)]) @ ys))"
  using assms by (cases x) auto

lemma append_keys:
  assumes "fst ` set xs \<subseteq> A" and "fst ` set ys \<subseteq> B" and "A \<inter> B = {}"
    and "distinct (map fst xs)" and "distinct (map fst ys)"
  shows "fst ` set (xs @ ys) \<subseteq> A \<union> B \<and> distinct (map fst (xs @ ys))"
  using assms by auto

text \<open>No key occurs twice in the request: the list is the dictionary of the source.\<close>

lemma distinct_run_opts: "distinct (map fst (run_opts op))"
proof -
  let ?t6 = "(case propagate_tags op of None \<Rightarrow> [] | Some pt \<Rightarrow> [(''propagateTags'', JStr pt)])"
  let ?t5 = "(case tags op of None \<Rightarrow> []
        | Some kvs \<Rightarrow>
            [(''tags'', JList (map (\<lambda>(k, v). JDict [(''key'', JStr k), (''value'', JStr v)]) kvs))])
        @ ?t6"
  let ?t4 = "(case network_configuration op of None \<Rightarrow> []
        | Some nc \<Rightarrow> [(''networkConfiguration'', nc)]) @ ?t5"
  let ?t3 = "(case placement_strategy op of None \<Rightarrow> []
        | Some ps \<Rightarrow> [(''placementStrategy'', JList ps)]) @ ?t4"
  let ?t2 = "(case placement_constraints op of None \<Rightarrow> []
        | Some pc \<Rightarrow> [(''placementConstraints'', JList pc)]) @ ?t3"
  let ?t1 = "(case task_group op of None \<Rightarrow> [] | Some g \<Rightarrow> [(''group'', JStr g)]) @ ?t2"
  let ?mid = "(if truthy (capacity_provider_strategy op)
        then [(''capacityProviderStrategy'', JList (the (capacity_provider_strategy op))),
              (''platformVersion'', JStr (platform_version op))]
        else if launch_type op \<noteq> []
        then [(''launchType'', JStr (launch_type op))]
             @ (if launch_type op = ''FARGATE''
                then [(''platformVersion'', JStr (platform_version op))] else [])
        else [])"
  have 6: "fst ` set ?t6 \<subseteq> {''propagateTags''} \<and> distinct (map fst ?t6)"
    using optional_key [where ys = "[]" and S = "{}" and k = "''propagateTags''"
                          and x = "propagate_tags op" and f = JStr]
    by simp
  have 5: "fst ` set ?t5 \<subseteq> {''tags'', ''propagateTags''} \<and> distinct (map fst ?t5)"
    using 6 by (intro optional_key) simp_all
  have 4: "fst ` set ?t4 \<subseteq> {''networkConfiguration'', ''tags'', ''propagateTags''}
           \<and> distinct (map fst ?t4)"
    using 5 by (intro optional_key [where f = "\<lambda>x. x"]) simp_all
  have 3: "fst ` set ?t3 \<subseteq> {''placementStrategy'', ''networkConfiguration'', ''tags'',
                              ''propagateTags''}
           \<and> distinct (map fst ?t3)"
    using 4 by (intro optional_key) simp_all
  have 2: "fst ` set ?t2 \<subseteq> {''placementConstraints'', ''placementStrategy'',
                              ''networkConfiguration'', ''tags'', ''propagateTags''}
           \<and> distinct (map fst ?t2)"
    using 3 by (intro optional_key) simp_all
  have 1: "fst ` set ?t1 \<subseteq> {''group'', ''placementConstraints'', ''placementStrategy'',
                              ''networkConfiguration'', ''tags'', ''propagateTags''}
           \<and> distinct (map fst ?t1)"
    using 2 by (intro optional_key) simp_all
  have m: "fst ` set ?mid \<subseteq> {''capacityProviderStrategy'', ''platformVersion'', ''launchType''}
           \<and> distinct (map fst ?mid)"
    by auto
  have mt: "fst ` set (?mid @ ?t1) \<subseteq>
              {''capacityProviderStrategy'', ''platformVersion'', ''launchType''}
              \<union> {''group'', ''placementConstraints'', ''placementStrategy'',
                 ''networkConfiguration'', ''tags'', ''propagateTags''}
            \<and> distinct (map fst (?mid @ ?t1))"
    by (rule append_keys [OF m [THEN conjunct1] 1 [THEN conjunct1] _ m [THEN conjunct2]
               1 [THEN conjunct2]]) simp
  have b: "fst ` set [(''cluster'', JStr (cluster op)),
      (''taskDefinition'', JStr (task_definition op)),
      (''overrides'', overrides op),
      (''startedBy'', JStr (owner op))]
        \<subseteq> {''cluster'', ''taskDefinition'', ''overrides'', ''startedBy''}"
    by simp
  have "distinct (map fst ([(''cluster'', JStr (cluster op)),
      (''taskDefinition'', JStr (task_definition op)),
      (''overrides'', overrides op),
      (''startedBy'', JStr (owner op))] @ ?mid @ ?t1))"
    by (rule append_keys [OF b mt [THEN conjunct1] _ _ mt [THEN conjunct2], THEN conjunct2])
       simp_all
  then show ?thesis
    unfolding run_opts_def by (simp only: append_assoc)
qed

text \<open>
  C3. With a capacity-provider strategy set (a non-empty list, as the source's truth test
  has it) the request holds the strategy and the platform version and no launch type.
  With no strategy and a launch type, the request holds the launch type and no strategy,
  and it holds a platform version exactly when the launch type is \<^verbatim>\<open>FARGATE\<close>.
\<close>

theorem run_opts_strategy_or_launch_type:
  "(capacity_provider_strategy op = Some cps \<and> cps \<noteq> [] \<longrightarrow>
      map_of (run_opts op) ''capacityProviderStrategy'' = Some (JList cps)
      \<and> map_of (run_opts op) ''platformVersion'' = Some (JStr (platform_version op))
      \<and> map_of (run_opts op) ''launchType'' = None)
   \<and> (\<not> truthy (capacity_provider_strategy op) \<and> launch_type op \<noteq> [] \<longrightarrow>
      map_of (run_opts op) ''capacityProviderStrategy'' = None
      \<and> map_of (run_opts op) ''launchType'' = Some (JStr (launch_type op))
      \<and> (map_of (run_opts op) ''platformVersion'' \<noteq> None \<longleftrightarrow> launch_type op = ''FARGATE''))"
  by (simp add: map_of_run_opts_launch truthy_def)

theorem run_opts_strategy_or_launch_type_witness:
  "map_of (run_opts ((init sample_args)\<lparr>capacity_provider_strategy := Some [JStr ''spot'']\<rparr>))
       ''capacityProviderStrategy'' = Some (JList [JStr ''spot''])
   \<and> map_of (run_opts ((init sample_args)\<lparr>capacity_provider_strategy := Some [JStr ''spot'']\<rparr>))
       ''launchType'' = None
   \<and> map_of (run_opts (init sample_args)) ''launchType'' = Some (JStr ''EC2'')
   \<and> map_of (run_opts (init sample_args)) ''platformVersion'' = None
   \<and> map_of (run_opts ((init sample_args)\<lparr>launch_type := ''FARGATE''\<rparr>)) ''platformVersion''
       \<noteq> None"
  using run_opts_strategy_or_launch_type
          [of "(init sample_args)\<lparr>capacity_provider_strategy := Some [JStr ''spot'']\<rparr>"
              "[JStr ''spot'']"]
        run_opts_strategy_or_launch_type [of "init sample_args" "[]"]
        run_opts_strategy_or_launch_type [of "(init sample_args)\<lparr>launch_type := ''FARGATE''\<rparr>" "[]"]
  by (simp add: sample_defs truthy_def)

section \<open>Launch failures and the retry predicate\<close>

lemma should_retry_iff:
  "should_retry e \<longleftrightarrow>
     (\<exists>fs r. e = ECSOperatorError fs r \<and>
        (\<exists>f\<in>set fs. py_in ''RESOURCE:MEMORY'' (f_reason f) \<or> py_in ''RESOURCE:CPU'' (f_reason f)))"
proof (cases e)
  case (ECSOperatorError fs r)
  then show ?thesis
    by (simp add: should_retry_def list_ex_iff) blast
qed (simp_all add: should_retry_def)

lemma start_task_no_client:
  "client (self s) = None \<Longrightarrow> start_task env ctx s = (Inl (AttributeError ''run_task''), s)"
  by (simp add: start_task_def)

lemma start_task_fst:
  "client (self s) = Some c \<Longrightarrow>
     fst (start_task env ctx s) =
       (if r_failures (run_task env (run_opts (self s))) \<noteq> []
        then Inl (ECSOperatorError (r_failures (run_task env (run_opts (self s))))
                    (run_task env (run_opts (self s))))
        else (case r_tasks (run_task env (run_opts (self s))) of
                [] \<Rightarrow> Inl IndexError
              | t # _ \<Rightarrow> Inr ()))"
  by (simp add: start_task_def Let_def split: list.split)

text \<open>
  C4. \<^verbatim>\<open>_start_task\<close> raises \<^verbatim>\<open>ECSOperatorError\<close> exactly when the response of the
  \<^verbatim>\<open>run_task\<close> call it issued has a non-empty list of failures, and the exception carries
  that list. \<^verbatim>\<open>should_retry\<close> holds of an exception exactly when it is such an
  \<^verbatim>\<open>ECSOperatorError\<close> and the reason of one of its failures contains
  \<^verbatim>\<open>RESOURCE:MEMORY\<close> or \<^verbatim>\<open>RESOURCE:CPU\<close>; of every other exception it is false.
\<close>

theorem start_task_launch_error_retry:
  "((\<exists>fs r. fst (start_task env ctx s) = Inl (ECSOperatorError fs r)) \<longleftrightarrow>
      (client (self s) \<noteq> None \<and> r_failures (run_task env (run_opts (self s))) \<noteq> []))
   \<and> (\<forall>fs r. fst (start_task env ctx s) = Inl (ECSOperatorError fs r) \<longrightarrow>
         r = run_task env (run_opts (self s)) \<and> fs = r_failures r)
   \<and> (should_retry e \<longleftrightarrow>
        (\<exists>fs r. e = ECSOperatorError fs r \<and>
           (\<exists>f\<in>set fs. py_in ''RESOURCE:MEMORY'' (f_reason f) \<or> py_in ''RESOURCE:CPU'' (f_reason f))))"
proof (cases "client (self s)")
  case None
  then show ?thesis
    using should_retry_iff [of e] by (simp add: start_task_no_client)
next
  case (Some c)
  show ?thesis
  proof (cases "r_failures (run_task env (run_opts (self s))) = []")
    case True
    then show ?thesis
      using should_retry_iff [of e] Some
      by (cases "r_tasks (run_task env (run_opts (self s)))") (simp_all add: start_task_fst)
  next
    case False
    then show ?thesis
      using should_retry_iff [of e] Some by (simp add: start_task_fst)
  qed
qed

theorem start_task_launch_error_retry_witness:
  "(\<exists>fs r. fst (start_task (sample_services rejected (one_container (exited 0)))
                 \<lparr>execution_date = ''2021-01-01''\<rparr>
                 (attached None (sample_state sample_args Map.empty)))
            = Inl (ECSOperatorError fs r))
   \<and> should_retry (ECSOperatorError (r_failures rejected) rejected)
   \<and> \<not> should_retry (KeyError ''tasks'')"
proof (intro conjI)
  show "\<exists>fs r. fst (start_task (sample_services rejected (one_container (exited 0)))
                 \<lparr>execution_date = ''2021-01-01''\<rparr>
                 (attached None (sample_state sample_args Map.empty)))
            = Inl (ECSOperatorError fs r)"
    by (rule start_task_launch_error_retry [THEN conjunct1, THEN iffD2])
       (simp add: sample_defs)
  show "should_retry (ECSOperatorError (r_failures rejected) rejected)"
    by (rule start_task_launch_error_retry [THEN conjunct2, THEN conjunct2, THEN iffD2])
       (simp add: rejected_def)
  show "\<not> should_retry (KeyError ''tasks'')"
    using start_task_launch_error_retry [THEN conjunct2, THEN conjunct2, of "KeyError ''tasks''"]
    by simp
qed

section \<open>Cancellation and the guards on the handle\<close>

text \<open>
  C8. When the operator holds a client and a handle, \<^verbatim>\<open>on_kill\<close> issues one call, the
  \<^verbatim>\<open>stop_task\<close> for the cluster and the handle with the reason
  \<^verbatim>\<open>Task killed by the user\<close>, changes nothing else and returns: no wait follows.
\<close>

theorem on_kill_stops_once:
  "client (self s) \<noteq> None \<Longrightarrow> arn (self s) = Some a \<Longrightarrow> a \<noteq> [] \<Longrightarrow>
     on_kill s =
       (Inr (), s\<lparr>calls := calls s @ [StopTask (cluster (self s)) a ''Task killed by the user'']\<rparr>)"
  by (cases "client (self s)") (simp_all add: on_kill_def truthy_def issue_def)

theorem on_kill_stops_once_witness:
  "calls (snd (on_kill (attached (Some ''task/new'') (sample_state sample_args Map.empty))))
     = [StopTask ''c1'' ''task/new'' ''Task killed by the user'']"
  using on_kill_stops_once
          [of "attached (Some ''task/new'') (sample_state sample_args Map.empty)" "''task/new''"]
  by (simp add: sample_defs)

text \<open>
  C10. Without a client, or without a handle (\<^verbatim>\<open>None\<close> or the empty string),
  \<^verbatim>\<open>_wait_for_task_ended\<close>, \<^verbatim>\<open>_check_success_task\<close> and \<^verbatim>\<open>on_kill\<close> return at once: no call
  is issued and the state is the one they were given.
\<close>

theorem no_handle_no_op:
  "client (self s) = None \<or> \<not> truthy (arn (self s)) \<Longrightarrow>
     wait_for_task_ended s = (Inr (), s)
     \<and> check_success_task env s = (Inr (), s)
     \<and> on_kill s = (Inr (), s)"
  unfolding wait_for_task_ended_def check_success_task_def on_kill_def
  by (simp only: if_True if_False simp_thms split: if_splits)

theorem no_handle_no_op_witness:
  "wait_for_task_ended (sample_state sample_args Map.empty)
     = (Inr (), sample_state sample_args Map.empty)
   \<and> check_success_task (sample_services started (one_container (exited 1)))
       (sample_state sample_args Map.empty)
     = (Inr (), sample_state sample_args Map.empty)
   \<and> on_kill (sample_state sample_args Map.empty) = (Inr (), sample_state sample_args Map.empty)"
  using no_handle_no_op
          [of "sample_state sample_args Map.empty"
              "sample_services started (one_container (exited 1))"]
  by (simp add: sample_defs)

section \<open>Effects of the operations\<close>

lemma and_then_fst_snd:
  "and_then r f = (case fst r of Inl e \<Rightarrow> (Inl e, snd r) | Inr x \<Rightarrow> f x (snd r))"
  by (cases r) (simp add: and_then_def split: sum.split)

lemma and_then_assoc:
  "and_then (and_then r f) g = and_then r (\<lambda>x s. and_then (f x s) g)"
  by (cases r) (simp add: and_then_def split: sum.split)

lemma get_hook_effect:
  "self (snd (get_hook s)) =
     (self s)\<lparr>hook := Some (fst (get_hook s))\<rparr>"
  "calls (snd (get_hook s)) = calls s"
  "xcom (snd (get_hook s)) = xcom s"
  by (cases "hook (self s)"; simp add: get_hook_def Let_def)+

lemma connect_effect:
  "self (connect s) = (self s)\<lparr>hook := Some (fst (get_hook s)), client := Some EcsClient\<rparr>"
  "calls (connect s) = calls s"
  "xcom (connect s) = xcom s"
  by (simp_all add: connect_def Let_def get_hook_effect)

lemma try_reattach_task_effect:
  assumes "client (self s) \<noteq> None"
  shows "fst (try_reattach_task env s) = Inr ()"
    and "self (snd (try_reattach_task env s)) =
           (self s)\<lparr>arn := (if (case stored_handle s of None \<Rightarrow> False
                                   | Some a \<Rightarrow> a \<in> set (running_tasks env (self s)))
                              then stored_handle s else arn (self s))\<rparr>"
    and "calls (snd (try_reattach_task env s)) =
           calls s @ [DescribeTaskDefinition (task_definition (self s)),
                      ListTasks (cluster (self s)) ''RUNNING''
                        (describe_task_definition env (task_definition (self s)))]"
    and "xcom (snd (try_reattach_task env s)) = xcom s"
proof -
  from assms obtain c where "client (self s) = Some c"
    by (cases "client (self s)") simp_all
  then show
    "fst (try_reattach_task env s) = Inr ()"
    "self (snd (try_reattach_task env s)) =
           (self s)\<lparr>arn := (if (case stored_handle s of None \<Rightarrow> False
                                   | Some a \<Rightarrow> a \<in> set (running_tasks env (self s)))
                              then stored_handle s else arn (self s))\<rparr>"
    "calls (snd (try_reattach_task env s)) =
           calls s @ [DescribeTaskDefinition (task_definition (self s)),
                      ListTasks (cluster (self s)) ''RUNNING''
                        (describe_task_definition env (task_definition (self s)))]"
    "xcom (snd (try_reattach_task env s)) = xcom s"
    unfolding try_reattach_task_def stored_handle_def running_tasks_def reattach_entry_def
      xcom_pull_def xcom_get_def issue_def Let_def
    by simp_all
qed

lemma start_task_effect:
  assumes "client (self s) \<noteq> None"
  shows "self (snd (start_task env ctx s)) =
           (case fst (start_task env ctx s) of
              Inl _ \<Rightarrow> self s
            | Inr _ \<Rightarrow> (self s)\<lparr>arn := Some (taskArn (hd (r_tasks (run_task env (run_opts (self s))))))\<rparr>)"
    and "calls (snd (start_task env ctx s)) = calls s @ [RunTask (run_opts (self s))]"
    and "xcom (snd (start_task env ctx s)) =
           (case fst (start_task env ctx s) of
              Inl _ \<Rightarrow> xcom s
            | Inr _ \<Rightarrow>
                if reattach (self s)
                then (xcom s)(reattach_entry (self s) \<mapsto>
                        taskArn (hd (r_tasks (run_task env (run_opts (self s))))))
                else xcom s)"
proof -
  from assms obtain c where "client (self s) = Some c"
    by (cases "client (self s)") simp_all
  then show
    "self (snd (start_task env ctx s)) =
           (case fst (start_task env ctx s) of
              Inl _ \<Rightarrow> self s
            | Inr _ \<Rightarrow> (self s)\<lparr>arn := Some (taskArn (hd (r_tasks (run_task env (run_opts (self s))))))\<rparr>)"
    "calls (snd (start_task env ctx s)) = calls s @ [RunTask (run_opts (self s))]"
    "xcom (snd (start_task env ctx s)) =
           (case fst (start_task env ctx s) of
              Inl _ \<Rightarrow> xcom s
            | Inr _ \<Rightarrow>
                if reattach (self s)
                then (xcom s)(reattach_entry (self s) \<mapsto>
                        taskArn (hd (r_tasks (run_task env (run_opts (self s))))))
                else xcom s)"
    by (simp_all add: start_task_def Let_def issue_def xcom_set_def xcom_put_def
          reattach_entry_def split: list.split)
qed

lemma start_task_fst':
  "client (self s) \<noteq> None \<Longrightarrow>
     fst (start_task env ctx s) =
       (if r_failures (run_task env (run_opts (self s))) \<noteq> []
        then Inl (ECSOperatorError (r_failures (run_task env (run_opts (self s))))
                    (run_task env (run_opts (self s))))
        else (case r_tasks (run_task env (run_opts (self s))) of
                [] \<Rightarrow> Inl IndexError
              | t # _ \<Rightarrow> Inr ()))"
  by (cases "client (self s)") (simp_all add: start_task_fst)

lemma wait_for_task_ended_effect:
  "fst (wait_for_task_ended s) = Inr ()"
  "self (snd (wait_for_task_ended s)) = self s"
  "xcom (snd (wait_for_task_ended s)) = xcom s"
  "calls (snd (wait_for_task_ended s)) =
     calls s @ (if client (self s) = None \<or> \<not> truthy (arn (self s)) then []
                else [WaitTasksStopped (cluster (self s)) [the (arn (self s))]])"
  by (simp_all add: wait_for_task_ended_def issue_def)

lemma cloudwatch_log_events_effect:
  "self (snd (cloudwatch_log_events env s)) = self s"
  "xcom (snd (cloudwatch_log_events env s)) = xcom s"
  "calls (snd (cloudwatch_log_events env s)) =
     calls s @ (if aws_logs_enabled (self s) \<and> arn (self s) \<noteq> None
                then [GetLogEvents (the (awslogs_group (self s)))
                        (stream_name (self s) (the (arn (self s))))]
                else [])"
  "fst (cloudwatch_log_events env s) =
     (if aws_logs_enabled (self s)
      then (case arn (self s) of
              None \<Rightarrow> Inl (AttributeError ''split'')
            | Some a \<Rightarrow> Inr (get_log_events env (the (awslogs_group (self s)))
                              (stream_name (self s) a)))
      else Inr [])"
  by (simp_all add: cloudwatch_log_events_def issue_def Let_def stream_name_def split: option.split)

lemma cloudwatch_log_events_attached:
  "arn (self s) = Some a \<Longrightarrow>
     fst (cloudwatch_log_events env s) =
       Inr (if aws_logs_enabled (self s)
            then get_log_events env (the (awslogs_group (self s))) (stream_name (self s) a)
            else [])"
  by (simp add: cloudwatch_log_events_effect)

lemma last_log_message_effect:
  "self (snd (last_log_message env s)) = self s"
  "xcom (snd (last_log_message env s)) = xcom s"
  "calls (snd (last_log_message env s)) = calls (snd (cloudwatch_log_events env s))"
  "fst (last_log_message env s) =
     (case fst (cloudwatch_log_events env s) of
        Inl e \<Rightarrow> Inl e
      | Inr events \<Rightarrow> Inr (last_message events))"
  by (simp_all add: last_log_message_def and_then_fst_snd last_message_def
        cloudwatch_log_events_effect split: sum.split list.split)

lemma last_log_message_fst:
  "fst (last_log_message env s) =
     (if aws_logs_enabled (self s)
      then (case arn (self s) of
              None \<Rightarrow> Inl (AttributeError ''split'')
            | Some a \<Rightarrow> Inr (last_message (get_log_events env (the (awslogs_group (self s)))
                                           (stream_name (self s) a))))
      else Inr None)"
  by (simp add: last_log_message_effect cloudwatch_log_events_effect last_message_def
        split: option.split)

lemma check_success_task_effect:
  "self (snd (check_success_task env s)) = self s"
  "xcom (snd (check_success_task env s)) = xcom s"
  by (simp_all add: check_success_task_def and_then_fst_snd Let_def issue_def
        cloudwatch_log_events_effect split: sum.split)

lemma check_success_task_attached:
  assumes "client (self s) \<noteq> None" and "arn (self s) = Some a" and "a \<noteq> []"
  shows "fst (check_success_task env s) =
           check_response (describe_tasks env (cluster (self s)) [a])"
    and "calls (snd (check_success_task env s)) =
           calls s @ DescribeTasks (cluster (self s)) [a]
             # (if aws_logs_enabled (self s)
                then [GetLogEvents (the (awslogs_group (self s))) (stream_name (self s) a)]
                else [])"
  using assms
  by (simp_all add: check_success_task_def and_then_fst_snd Let_def truthy_def
        cloudwatch_log_events_effect issue_def del: not_None_eq)

lemma xcom_del_effect:
  "self (xcom_del t s) = self s"
  "calls (xcom_del t s) = calls s"
  "xcom (xcom_del t s) = (\<lambda>(d, t', k). if d = dag_id (self s) \<and> t' = t then None else xcom s (d, t', k))"
  by (simp_all add: xcom_del_def)

lemma run_opts_runtime:
  "run_opts (op\<lparr>hook := h\<rparr>) = run_opts op"
  "run_opts (op\<lparr>client := c\<rparr>) = run_opts op"
  "run_opts (op\<lparr>arn := a\<rparr>) = run_opts op"
  by (simp_all add: run_opts_def)

lemma reattach_entry_runtime:
  "reattach_entry (op\<lparr>hook := h\<rparr>) = reattach_entry op"
  "reattach_entry (op\<lparr>client := c\<rparr>) = reattach_entry op"
  "reattach_entry (op\<lparr>arn := a\<rparr>) = reattach_entry op"
  by (simp_all add: reattach_entry_def)

lemma running_tasks_runtime:
  "running_tasks env (op\<lparr>hook := h\<rparr>) = running_tasks env op"
  "running_tasks env (op\<lparr>client := c\<rparr>) = running_tasks env op"
  "running_tasks env (op\<lparr>arn := a\<rparr>) = running_tasks env op"
  by (simp_all add: running_tasks_def)

lemma stored_handle_connect: "stored_handle (connect s) = stored_handle s"
  by (simp add: stored_handle_def connect_effect reattach_entry_runtime)

lemma is_RunTask_simps:
  "is_RunTask (RunTask opts)"
  "\<not> is_RunTask (DescribeTaskDefinition d)"
  "\<not> is_RunTask (ListTasks c st f)"
  "\<not> is_RunTask (WaitTasksStopped c ts)"
  "\<not> is_RunTask (DescribeTasks c ts)"
  "\<not> is_RunTask (StopTask c a r)"
  "\<not> is_RunTask (GetLogEvents g n)"
  by (simp_all add: is_RunTask_def)

lemma no_start_after_launch:
  "filter is_RunTask (calls (snd (wait_for_task_ended s))) = filter is_RunTask (calls s)"
  "filter is_RunTask (calls (snd (cloudwatch_log_events env s))) = filter is_RunTask (calls s)"
  "filter is_RunTask (calls (snd (last_log_message env s))) = filter is_RunTask (calls s)"
  "filter is_RunTask (calls (snd (check_success_task env s))) = filter is_RunTask (calls s)"
  by (simp_all add: wait_for_task_ended_effect cloudwatch_log_events_effect
        last_log_message_effect(1-3) check_success_task_def and_then_fst_snd Let_def issue_def
        is_RunTask_simps split: sum.split)

section \<open>The launch phase\<close>

lemma execute_launch:
  "execute env ctx s =
     and_then (launch env ctx s)
       (\<lambda>_ s3. and_then (wait_for_task_ended s3)
       (\<lambda>_ s4. and_then (check_success_task env s4)
       (\<lambda>_ s5.
          (let s6 = (if reattach (self s5)
                     then xcom_del (REATTACH_XCOM_TASK_ID_TEMPLATE (task_id (self s5))) s5
                     else s5)
           in if do_xcom_push (self s6) then last_log_message env s6 else (Inr None, s6)))))"
  by (simp only: execute_def launch_def connect_def Let_def and_then_assoc)

lemmas launch_simps = launch_def Let_def and_then_fst_snd connect_effect
  try_reattach_task_effect start_task_effect start_task_fst' run_opts_runtime
  reattach_entry_runtime running_tasks_runtime stored_handle_connect

text \<open>What \<open>launch\<close> leaves alone.\<close>

lemma launch_config:
  "client (self (snd (launch env ctx s))) = Some EcsClient"
  "reattach (self (snd (launch env ctx s))) = reattach (self s)"
  "do_xcom_push (self (snd (launch env ctx s))) = do_xcom_push (self s)"
  "cluster (self (snd (launch env ctx s))) = cluster (self s)"
  "awslogs_group (self (snd (launch env ctx s))) = awslogs_group (self s)"
  "awslogs_stream_prefix (self (snd (launch env ctx s))) = awslogs_stream_prefix (self s)"
  "reattach_entry (self (snd (launch env ctx s))) = reattach_entry (self s)"
  by (simp_all add: launch_simps reattach_entry_def split: sum.split list.split cong: option.case_cong)

lemma launch_adopt:
  assumes "reattach (self s)" and "stored_handle s = Some a"
    and "a \<in> set (running_tasks env (self s))" and "a \<noteq> []"
  shows "fst (launch env ctx s) = Inr ()"
    and "arn (self (snd (launch env ctx s))) = Some a"
    and "calls (snd (launch env ctx s)) =
           calls s @ [DescribeTaskDefinition (task_definition (self s)),
                      ListTasks (cluster (self s)) ''RUNNING''
                        (describe_task_definition env (task_definition (self s)))]"
    and "xcom (snd (launch env ctx s)) = xcom s"
  using assms by (simp_all add: launch_simps truthy_def cong: option.case_cong)

lemma launch_miss:
  assumes "reattach (self s)" and "\<not> truthy (arn (self s))"
    and "stored_handle s = None \<or> (\<exists>a. stored_handle s = Some a \<and> a \<notin> set (running_tasks env (self s)))"
  shows "calls (snd (launch env ctx s)) =
           calls s @ [DescribeTaskDefinition (task_definition (self s)),
                      ListTasks (cluster (self s)) ''RUNNING''
                        (describe_task_definition env (task_definition (self s))),
                      RunTask (run_opts (self s))]"
    and "fst (launch env ctx s) = fst (start_task env ctx (connect s))"
    and "r_failures (run_task env (run_opts (self s))) = [] \<Longrightarrow>
         r_tasks (run_task env (run_opts (self s))) = t # ts \<Longrightarrow>
           fst (launch env ctx s) = Inr ()
           \<and> arn (self (snd (launch env ctx s))) = Some (taskArn t)
           \<and> stored_handle (snd (launch env ctx s)) = Some (taskArn t)"
proof -
  from assms(3) have miss:
    "\<not> (case stored_handle s of None \<Rightarrow> False | Some a \<Rightarrow> a \<in> set (running_tasks env (self s)))"
    by (cases "stored_handle s") simp_all
  show "calls (snd (launch env ctx s)) =
           calls s @ [DescribeTaskDefinition (task_definition (self s)),
                      ListTasks (cluster (self s)) ''RUNNING''
                        (describe_task_definition env (task_definition (self s))),
                      RunTask (run_opts (self s))]"
    using assms(1,2) miss by (simp add: launch_simps cong: option.case_cong)
  show "fst (launch env ctx s) = fst (start_task env ctx (connect s))"
    using assms(1,2) miss by (simp add: launch_simps cong: option.case_cong)
  show "fst (launch env ctx s) = Inr ()
           \<and> arn (self (snd (launch env ctx s))) = Some (taskArn t)
           \<and> stored_handle (snd (launch env ctx s)) = Some (taskArn t)"
    if "r_failures (run_task env (run_opts (self s))) = []"
      and "r_tasks (run_task env (run_opts (self s))) = t # ts"
    using assms(1,2) miss that by (simp add: launch_simps stored_handle_def cong: option.case_cong)
qed

lemma launch_fst_cases:
  "fst (launch env ctx s) = Inr ()
   \<or> (\<exists>fs r. fst (launch env ctx s) = Inl (ECSOperatorError fs r))
   \<or> fst (launch env ctx s) = Inl IndexError"
  by (simp add: launch_simps split: sum.split list.split cong: option.case_cong)

lemma launch_arn:
  "fst (launch env ctx s) = Inr () \<Longrightarrow> arn (self (snd (launch env ctx s))) \<noteq> None"
  by (simp add: launch_simps truthy_def split: sum.splits list.splits if_splits option.splits
        cong: option.case_cong)

lemma launch_stored:
  assumes "reattach (self s)" and "\<not> truthy (arn (self s))"
    and "fst (launch env ctx s) = Inr ()"
  shows "stored_handle (snd (launch env ctx s)) = arn (self (snd (launch env ctx s)))"
proof (cases "case stored_handle s of None \<Rightarrow> False | Some a \<Rightarrow> a \<in> set (running_tasks env (self s))")
  case True
  then obtain a where a: "stored_handle s = Some a" "a \<in> set (running_tasks env (self s))"
    by (cases "stored_handle s") simp_all
  show ?thesis
  proof (cases "a = []")
    case False
    with a assms(1) show ?thesis
      using launch_adopt [of s a env ctx]
      by (simp add: stored_handle_def launch_config del: not_None_eq)
  next
    case True
    with a assms show ?thesis
      by (simp add: launch_simps truthy_def stored_handle_def reattach_entry_def
            split: list.splits if_splits cong: option.case_cong)
  qed
next
  case False
  with assms show ?thesis
    by (simp add: launch_simps truthy_def stored_handle_def reattach_entry_def
          split: list.splits if_splits cong: option.case_cong)
qed

lemma aws_logs_enabled_launch:
  "aws_logs_enabled (self (snd (launch env ctx s))) = aws_logs_enabled (self s)"
  by (simp add: aws_logs_enabled_def launch_config)

lemma stream_name_launch:
  "stream_name (self (snd (launch env ctx s))) a = stream_name (self s) a"
  by (simp add: stream_name_def launch_config)

section \<open>The whole run\<close>

lemmas execute_simps = execute_launch and_then_fst_snd Let_def wait_for_task_ended_effect
  check_success_task_effect last_log_message_effect(1-3) last_log_message_fst xcom_del_effect

lemma execute_self: "self (snd (execute env ctx s)) = self (snd (launch env ctx s))"
  by (simp add: execute_simps split: sum.split)

lemma execute_fst:
  "fst (execute env ctx s) =
     (case fst (launch env ctx s) of
        Inl e \<Rightarrow> Inl e
      | Inr _ \<Rightarrow>
          (case fst (check_success_task env (snd (wait_for_task_ended (snd (launch env ctx s))))) of
             Inl e \<Rightarrow> Inl e
           | Inr _ \<Rightarrow>
               if do_xcom_push (self s)
               then fst (last_log_message env (snd (execute env ctx s)))
               else Inr None))"
  by (simp add: execute_simps launch_config split: sum.split cong: option.case_cong)

lemma execute_starts:
  "filter is_RunTask (calls (snd (execute env ctx s))) =
     filter is_RunTask (calls (snd (launch env ctx s)))"
  by (simp add: execute_launch and_then_fst_snd Let_def no_start_after_launch xcom_del_effect
        split: sum.split)

lemma execute_xcom_success:
  assumes "fst (execute env ctx s) = Inr v" and "reattach (self s)"
  shows "xcom (snd (execute env ctx s))
           (dag_id (self s), REATTACH_XCOM_TASK_ID_TEMPLATE (task_id (self s)), k) = None"
proof -
  have e: "reattach_entry (self (snd (launch env ctx s))) = reattach_entry (self s)"
    by (rule launch_config)
  from assms e show ?thesis
    by (simp add: execute_simps launch_config reattach_entry_def split: sum.splits)
qed

lemma execute_xcom_failure:
  assumes "fst (execute env ctx s) = Inl (AirflowException m)"
  shows "fst (launch env ctx s) = Inr ()"
    and "xcom (snd (execute env ctx s)) = xcom (snd (launch env ctx s))"
proof -
  show l: "fst (launch env ctx s) = Inr ()"
    using assms launch_fst_cases [of env ctx s]
    by (auto simp: execute_simps split: sum.splits)
  from launch_arn [OF l] obtain a where a: "arn (self (snd (launch env ctx s))) = Some a"
    by (cases "arn (self (snd (launch env ctx s)))") simp_all
  show "xcom (snd (execute env ctx s)) = xcom (snd (launch env ctx s))"
    using assms l a
    by (simp add: execute_simps split: sum.splits if_splits)
qed

section \<open>Sample runs, evaluated\<close>

lemma sample_run_fst:
  "fst (sample_run True (exited 0)) = Inr (Some ''done'')"
  "fst (sample_run False (exited 0)) = Inr None"
  "fst (sample_run True (exited 1)) = Inl (AirflowException (Not_In_Success_State (one_task (exited 1))))"
  by (simp_all add: run_defs)

lemma sample_run_self:
  "arn (self (snd (sample_run p c))) = Some ''task/new''"
  "reattach (self (snd (sample_run p c)))"
  by (simp_all add: sample_run_def execute_self launch_simps sample_defs truthy_def
        stored_handle_def)

lemma sample_run_config:
  "aws_logs_enabled (self (snd (sample_run p c)))"
  "awslogs_group (self (snd (sample_run p c))) = Some ''logs''"
  "stream_name (self (snd (sample_run p c))) a = ''ecs/hello/'' @ last_component a"
  by (simp_all add: sample_run_def execute_self aws_logs_enabled_launch stream_name_launch
        launch_config sample_defs aws_logs_enabled_def stream_name_def truthy_def)

lemma sample_run_pair:
  "sample_run True (exited 0) = (Inr (Some ''done''), snd (sample_run True (exited 0)))"
  "sample_run False (exited 0) = (Inr None, snd (sample_run False (exited 0)))"
  "sample_run True (exited 1) =
     (Inl (AirflowException (Not_In_Success_State (one_task (exited 1)))),
      snd (sample_run True (exited 1)))"
  by (simp_all add: prod_eq_iff sample_run_fst)

section \<open>The result of the run\<close>

text \<open>
  C9. When \<^verbatim>\<open>execute\<close> returns, it returns \<^verbatim>\<open>None\<close> if \<^verbatim>\<open>do_xcom_push\<close> is off, whatever the
  log holds; if it is on, it returns the message of the last event of the task's stream,
  or \<^verbatim>\<open>None\<close> when the log configuration is missing or the stream is empty.
\<close>

theorem execute_returns_last_message_if_pushing:
  assumes "execute env ctx s = (Inr v, s')"
  shows "(\<not> do_xcom_push (self s) \<longrightarrow> v = None)
     \<and> (do_xcom_push (self s) \<longrightarrow>
          (\<exists>a. arn (self s') = Some a
             \<and> v = (if aws_logs_enabled (self s)
                      then last_message (get_log_events env (the (awslogs_group (self s)))
                                           (stream_name (self s) a))
                      else None)))"
proof -
  from assms have f: "fst (execute env ctx s) = Inr v" and s': "snd (execute env ctx s) = s'"
    by simp_all
  from f have l: "fst (launch env ctx s) = Inr ()"
    unfolding execute_fst [of env ctx s] by (simp split: sum.splits)
  from launch_arn [OF l] obtain a where a: "arn (self (snd (launch env ctx s))) = Some a"
    by (cases "arn (self (snd (launch env ctx s)))") simp_all
  have a': "arn (self s') = Some a"
    using a execute_self [of env ctx s] s' by simp
  from f show ?thesis
    unfolding execute_fst [of env ctx s] s'
    using a a' execute_self [of env ctx s] s'
    by (simp add: last_log_message_fst aws_logs_enabled_launch stream_name_launch launch_config
          split: sum.splits if_splits)
qed

theorem execute_returns_last_message_if_pushing_witness:
  "fst (sample_run False (exited 0)) = Inr None
   \<and> fst (sample_run True (exited 0)) = Inr (Some ''done'')
   \<and> last_message (get_log_events (sample_services started (one_container (exited 0)))
                      ''logs'' ''ecs/hello/new'') = Some ''done''"
proof -
  let ?s = "sample_state (sample_args\<lparr>a_do_xcom_push := True\<rparr>) Map.empty"
  have push: "do_xcom_push (self ?s)" and logs: "aws_logs_enabled (self ?s)"
    and grp: "awslogs_group (self ?s) = Some ''logs''"
    and name: "stream_name (self ?s) ''task/new'' = ''ecs/hello/new''"
    by (simp_all add: sample_defs aws_logs_enabled_def stream_name_def string_defs)
  from execute_returns_last_message_if_pushing
         [OF sample_run_pair(1) [unfolded sample_run_def]] push
  obtain a where "arn (self (snd (sample_run True (exited 0)))) = Some a"
    and v: "Some ''done'' =
              (if aws_logs_enabled (self ?s)
               then last_message
                      (get_log_events (sample_services started (one_container (exited 0)))
                         (the (awslogs_group (self ?s))) (stream_name (self ?s) a))
               else None)"
    unfolding sample_run_def by blast
  then have "a = ''task/new''"
    by (simp add: sample_run_self)
  with v logs grp name show ?thesis
    by (simp add: sample_run_fst)
qed

section \<open>The correlation store\<close>

text \<open>
  C2. With \<^verbatim>\<open>reattach\<close> on an operator that has no handle yet: when the store holds a
  task identifier that is among the running tasks of the family, \<^verbatim>\<open>execute\<close> takes it as
  its handle and issues no \<^verbatim>\<open>run_task\<close> call; when the store holds nothing, or an
  identifier that is not among the running tasks, \<^verbatim>\<open>execute\<close> issues one \<^verbatim>\<open>run_task\<close>
  call, and when that call starts a task, its identifier is the handle and is what the
  store holds once the task has been started (\<open>launch\<close> is \<^verbatim>\<open>execute\<close> up to that point).
\<close>

theorem reattach_adopts_or_starts:
  assumes "reattach (self s)" and "\<not> truthy (arn (self s))"
  shows "(stored_handle s = Some a \<and> a \<in> set (running_tasks env (self s)) \<and> a \<noteq> [] \<longrightarrow>
            arn (self (snd (execute env ctx s))) = Some a
            \<and> filter is_RunTask (calls (snd (execute env ctx s))) = filter is_RunTask (calls s))
       \<and> (stored_handle s = None
            \<or> (\<exists>b. stored_handle s = Some b \<and> b \<notin> set (running_tasks env (self s))) \<longrightarrow>
            filter is_RunTask (calls (snd (execute env ctx s))) =
              filter is_RunTask (calls s) @ [RunTask (run_opts (self s))]
            \<and> (r_failures (run_task env (run_opts (self s))) = []
                 \<and> r_tasks (run_task env (run_opts (self s))) = t # ts \<longrightarrow>
                 arn (self (snd (execute env ctx s))) = Some (taskArn t)
                 \<and> stored_handle (snd (launch env ctx s)) = Some (taskArn t)))"
proof (intro conjI impI)
  assume h: "stored_handle s = Some a \<and> a \<in> set (running_tasks env (self s)) \<and> a \<noteq> []"
  with assms(1) show "arn (self (snd (execute env ctx s))) = Some a"
    by (simp add: execute_self launch_adopt)
  from h assms(1)
  show "filter is_RunTask (calls (snd (execute env ctx s))) = filter is_RunTask (calls s)"
    by (simp add: execute_starts launch_adopt is_RunTask_simps)
next
  assume h: "stored_handle s = None
             \<or> (\<exists>b. stored_handle s = Some b \<and> b \<notin> set (running_tasks env (self s)))"
  show "filter is_RunTask (calls (snd (execute env ctx s))) =
          filter is_RunTask (calls s) @ [RunTask (run_opts (self s))]"
    by (simp add: execute_starts launch_miss(1) [OF assms h] is_RunTask_simps)
  assume r: "r_failures (run_task env (run_opts (self s))) = []
             \<and> r_tasks (run_task env (run_opts (self s))) = t # ts"
  then have l: "fst (launch env ctx s) = Inr ()
           \<and> arn (self (snd (launch env ctx s))) = Some (taskArn t)
           \<and> stored_handle (snd (launch env ctx s)) = Some (taskArn t)"
    by (intro launch_miss(3) [OF assms h]) simp_all
  then show "arn (self (snd (execute env ctx s))) = Some (taskArn t)"
    by (simp add: execute_self)
  from l show "stored_handle (snd (launch env ctx s)) = Some (taskArn t)"
    by simp
qed

theorem reattach_adopts_or_starts_witness:
  "arn (self (snd (execute (sample_services started (one_container (exited 0))) sample_ctx
                     (sample_state sample_args sample_store)))) = Some ''task/old''
   \<and> filter is_RunTask
        (calls (snd (execute (sample_services started (one_container (exited 0))) sample_ctx
                       (sample_state sample_args sample_store)))) = []
   \<and> filter is_RunTask
        (calls (snd (execute (sample_services started (one_container (exited 0))) sample_ctx
                       (sample_state sample_args Map.empty))))
       = [RunTask (run_opts (init sample_args))]
   \<and> stored_handle (snd (launch (sample_services started (one_container (exited 0))) sample_ctx
                            (sample_state sample_args Map.empty))) = Some ''task/new''"
proof -
  let ?env = "sample_services started (one_container (exited 0))"
  let ?old = "sample_state sample_args sample_store"
  let ?new = "sample_state sample_args Map.empty"
  have r: "reattach (self ?old)" "\<not> truthy (arn (self ?old))"
    "reattach (self ?new)" "\<not> truthy (arn (self ?new))"
    by (simp_all add: sample_defs truthy_def)
  have adopt: "stored_handle ?old = Some ''task/old''
               \<and> ''task/old'' \<in> set (running_tasks ?env (self ?old)) \<and> ''task/old'' \<noteq> []"
    by (simp add: sample_defs stored_handle_def running_tasks_def reattach_entry_def string_defs)
  have miss: "stored_handle ?new = None
              \<or> (\<exists>b. stored_handle ?new = Some b \<and> b \<notin> set (running_tasks ?env (self ?new)))"
    by (simp add: sample_defs stored_handle_def)
  have resp: "r_failures (run_task ?env (run_opts (self ?new))) = []
              \<and> r_tasks (run_task ?env (run_opts (self ?new))) = [\<lparr>taskArn = ''task/new''\<rparr>]"
    by (simp add: sample_services_def started_def)
  from reattach_adopts_or_starts
         [OF r(1,2), where ctx = sample_ctx, THEN conjunct1, rule_format, OF adopt]
       reattach_adopts_or_starts
         [OF r(3,4), where ctx = sample_ctx, THEN conjunct2, rule_format, OF miss,
          THEN conjunct1]
       reattach_adopts_or_starts
         [OF r(3,4), where ctx = sample_ctx, THEN conjunct2, rule_format, OF miss,
          THEN conjunct2, rule_format, OF resp]
  show ?thesis
    by (simp add: sample_state_def is_RunTask_simps)
qed

text \<open>
  C5, as the code has it. With \<^verbatim>\<open>reattach\<close>, when \<^verbatim>\<open>execute\<close> returns, the store holds no
  entry of this operator's \<^verbatim>\<open>dag_id\<close> and reattach \<^verbatim>\<open>task_id\<close>. When \<^verbatim>\<open>execute\<close> ends with
  an \<^verbatim>\<open>AirflowException\<close>, which is how \<^verbatim>\<open>_check_success_task\<close> reports a failed task, the
  entry is still there and holds the handle of the run.
\<close>

theorem reattach_entry_deleted_on_success:
  assumes "reattach (self s)"
  shows "(execute env ctx s = (Inr v, s') \<longrightarrow>
            xcom s' (dag_id (self s), REATTACH_XCOM_TASK_ID_TEMPLATE (task_id (self s)), k) = None)
       \<and> (\<not> truthy (arn (self s)) \<and> execute env ctx s = (Inl (AirflowException m), s'') \<longrightarrow>
            arn (self s'') \<noteq> None \<and> stored_handle s'' = arn (self s''))"
proof (intro conjI impI)
  assume "execute env ctx s = (Inr v, s')"
  then have "fst (execute env ctx s) = Inr v" and "snd (execute env ctx s) = s'"
    by simp_all
  with execute_xcom_success [OF _ assms, of env ctx v k]
  show "xcom s' (dag_id (self s), REATTACH_XCOM_TASK_ID_TEMPLATE (task_id (self s)), k) = None"
    by simp
next
  assume h: "\<not> truthy (arn (self s)) \<and> execute env ctx s = (Inl (AirflowException m), s'')"
  then have f: "fst (execute env ctx s) = Inl (AirflowException m)"
    and s'': "snd (execute env ctx s) = s''"
    by simp_all
  note l = execute_xcom_failure [OF f]
  have self: "self s'' = self (snd (launch env ctx s))"
    using execute_self [of env ctx s] s'' by simp
  show "arn (self s'') \<noteq> None"
    using launch_arn [OF l(1)] self by simp
  show "stored_handle s'' = arn (self s'')"
    using launch_stored [OF assms _ l(1)] h l(2) self s''
    by (simp add: stored_handle_def)
qed

theorem reattach_entry_deleted_on_success_witness:
  "xcom (snd (sample_run True (exited 0))) (''dag'', ''run_task_arn'', ''ecs_task_arn'') = None
   \<and> stored_handle (snd (sample_run True (exited 1))) = Some ''task/new''"
proof -
  let ?s = "sample_state (sample_args\<lparr>a_do_xcom_push := True\<rparr>) Map.empty"
  have r: "reattach (self ?s)" and a: "\<not> truthy (arn (self ?s))"
    and d: "dag_id (self ?s) = ''dag''"
    and t: "REATTACH_XCOM_TASK_ID_TEMPLATE (task_id (self ?s)) = ''run_task_arn''"
    by (simp_all add: sample_defs string_defs)
  from reattach_entry_deleted_on_success [OF r, THEN conjunct1, rule_format,
         OF sample_run_pair(1) [unfolded sample_run_def], of "''ecs_task_arn''"]
  have "xcom (snd (sample_run True (exited 0))) (''dag'', ''run_task_arn'', ''ecs_task_arn'') = None"
    unfolding sample_run_def d t .
  moreover
  from reattach_entry_deleted_on_success [OF r, THEN conjunct2, rule_format,
         OF conjI [OF a sample_run_pair(3) [unfolded sample_run_def]]]
  have "stored_handle (snd (sample_run True (exited 1))) = Some ''task/new''"
    unfolding sample_run_def [symmetric] by (simp add: sample_run_self)
  ultimately show ?thesis by simp
qed

text \<open>
  The run fails on the exit code 1 of the container; the operator has \<^verbatim>\<open>reattach\<close> on, and
  the store still holds the entry.
\<close>

theorem reattach_entry_kept_on_failure:
  "reattach (self (sample_state (sample_args\<lparr>a_do_xcom_push := True\<rparr>) Map.empty))
   \<and> fst (sample_run True (exited 1))
       = Inl (AirflowException (Not_In_Success_State (one_task (exited 1))))
   \<and> xcom (snd (sample_run True (exited 1))) (''dag'', ''run_task_arn'', ''ecs_task_arn'')
       = Some ''task/new''"
  by (simp add: run_defs)

section \<open>The last log message\<close>

text \<open>
  C6, as the code has it. \<^verbatim>\<open>_last_log_message\<close> is \<^verbatim>\<open>None\<close>, and no error, when the log
  configuration is missing; otherwise it is the message of the last event of the stream
  \<^verbatim>\<open>{awslogs_stream_prefix}/{last component of the handle}\<close>, and \<^verbatim>\<open>None\<close> when the stream has
  no event. When \<^verbatim>\<open>do_xcom_push\<close> is on and \<^verbatim>\<open>execute\<close> returns, it returns this value.
\<close>

theorem last_log_message_last_event:
  "(\<not> aws_logs_enabled (self s) \<longrightarrow> last_log_message env s = (Inr None, s))
   \<and> (aws_logs_enabled (self s) \<and> arn (self s) = Some a \<longrightarrow>
        fst (last_log_message env s) =
          Inr (last_message
                 (get_log_events env (the (awslogs_group (self s)))
                    (the (awslogs_stream_prefix (self s)) @ ''/''
                       @ rev (takeWhile (\<lambda>c. c \<noteq> CHR ''/'') (rev a))))))
   \<and> last_message [] = None
   \<and> last_message (events @ [e]) = Some (message e)
   \<and> (do_xcom_push (self s) \<and> execute env ctx s = (Inr v, s') \<longrightarrow>
        fst (last_log_message env s') = Inr v)"
proof (intro conjI impI)
  show "last_log_message env s = (Inr None, s)" if "\<not> aws_logs_enabled (self s)"
    using that by (simp add: last_log_message_def cloudwatch_log_events_def and_then_def)
  show "fst (last_log_message env s) =
          Inr (last_message
                 (get_log_events env (the (awslogs_group (self s)))
                    (the (awslogs_stream_prefix (self s)) @ ''/''
                       @ rev (takeWhile (\<lambda>c. c \<noteq> CHR ''/'') (rev a)))))"
    if "aws_logs_enabled (self s) \<and> arn (self s) = Some a"
    using that by (simp add: last_log_message_fst stream_name_def last_component_suffix)
  show "last_message [] = None"
    by (simp add: last_message_def)
  show "last_message (events @ [e]) = Some (message e)"
    by (cases events) (simp_all add: last_message_def)
  show "fst (last_log_message env s') = Inr v"
    if h: "do_xcom_push (self s) \<and> execute env ctx s = (Inr v, s')"
  proof -
    from h have f: "fst (execute env ctx s) = Inr v" and s': "snd (execute env ctx s) = s'"
      by simp_all
    from f h show ?thesis
      unfolding execute_fst [of env ctx s] s'
      by (simp split: sum.splits)
  qed
qed

theorem last_log_message_last_event_witness:
  "fst (last_log_message (sample_services started (one_container (exited 0)))
          (attached (Some ''arn:aws:ecs:eu-west-1:012345678910:task/new'')
             (sample_state sample_args Map.empty)))
     = Inr (Some ''done'')
   \<and> last_log_message (sample_services started (one_container (exited 0)))
         (sample_state (sample_args\<lparr>a_awslogs_group := None\<rparr>) Map.empty)
     = (Inr None, sample_state (sample_args\<lparr>a_awslogs_group := None\<rparr>) Map.empty)
   \<and> fst (last_log_message (sample_services started (one_container (exited 0)))
            (snd (sample_run True (exited 0))))
     = Inr (Some ''done'')"
proof -
  let ?env = "sample_services started (one_container (exited 0))"
  let ?s = "attached (Some ''arn:aws:ecs:eu-west-1:012345678910:task/new'')
              (sample_state sample_args Map.empty)"
  let ?n = "sample_state (sample_args\<lparr>a_awslogs_group := None\<rparr>) Map.empty"
  let ?t = "sample_state (sample_args\<lparr>a_do_xcom_push := True\<rparr>) Map.empty"
  have "aws_logs_enabled (self ?s)
        \<and> arn (self ?s) = Some ''arn:aws:ecs:eu-west-1:012345678910:task/new''"
    by (simp add: sample_defs aws_logs_enabled_def truthy_def)
  with last_log_message_last_event
         [of ?s ?env "''arn:aws:ecs:eu-west-1:012345678910:task/new''", THEN conjunct2,
          THEN conjunct1]
  have 1: "fst (last_log_message ?env ?s) = Inr (Some ''done'')"
    by (simp add: sample_services_def last_message_def)
  have "\<not> aws_logs_enabled (self ?n)"
    by (simp add: sample_defs aws_logs_enabled_def truthy_def)
  with last_log_message_last_event [of ?n ?env, THEN conjunct1]
  have 2: "last_log_message ?env ?n = (Inr None, ?n)"
    by simp
  have "do_xcom_push (self ?t) \<and> execute ?env sample_ctx ?t
          = (Inr (Some ''done''), snd (sample_run True (exited 0)))"
    using sample_run_pair(1) by (simp add: sample_defs)
  with last_log_message_last_event
         [of ?t ?env _ _ _ sample_ctx "Some ''done''" "snd (sample_run True (exited 0))",
          THEN conjunct2, THEN conjunct2, THEN conjunct2, THEN conjunct2]
  have 3: "fst (last_log_message ?env (snd (sample_run True (exited 0)))) = Inr (Some ''done'')"
    by simp
  from 1 2 3 show ?thesis by simp
qed

text \<open>
  With \<^verbatim>\<open>do_xcom_push\<close> off the run succeeds and returns \<^verbatim>\<open>None\<close>, while the last message of
  the log is \<^verbatim>\<open>done\<close>.
\<close>

theorem last_message_not_returned_without_push:
  "fst (sample_run False (exited 0)) = Inr None
   \<and> fst (last_log_message (sample_services started (one_container (exited 0)))
            (snd (sample_run False (exited 0))))
       = Inr (Some ''done'')"
  by (simp add: sample_run_fst last_log_message_fst sample_run_config sample_run_self
        sample_services_def last_message_def)

section \<open>The order of the checks\<close>

lemma verdict_of_Inl: "verdict_of (Inl e) \<noteq> Some Success"
proof (cases e)
  case (AirflowException m)
  then show ?thesis by (cases m) simp_all
qed simp_all

lemma check_containers_first_failure:
  "list_all exit_code_present cs \<Longrightarrow>
     verdict_of (check_containers t cs) =
       (case first_failure (map spec_container cs) of
          None \<Rightarrow> Some Success
        | Some k \<Rightarrow> Some (Failure k))"
proof (induction cs)
  case Nil
  show ?case by simp
next
  case (Cons c cs)
  then have e: "exit_code_present c" and IH: "verdict_of (check_containers t cs) =
       (case first_failure (map spec_container cs) of
          None \<Rightarrow> Some Success
        | Some k \<Rightarrow> Some (Failure k))"
    by simp_all
  note c = spec_container_def [of c] stopped_nonzero_def [of c]
  show ?case
  proof (cases "c_lastStatus c = Some ''STOPPED''")
    case True
    with e obtain n where n: "c_exitCode c = Some n"
      by (cases "c_exitCode c") (simp_all add: exit_code_present_def)
    from True n IH show ?thesis
      by (simp add: c)
  next
    case False
    with IH show ?thesis
      by (simp add: c)
  qed
qed

lemma check_tasks_first_failure:
  "list_all (\<lambda>t. case t_containers t of None \<Rightarrow> False
                  | Some cs \<Rightarrow> list_all exit_code_present cs) ts \<Longrightarrow>
     verdict_of (check_tasks ts) =
       (case first_failure (map spec_task ts) of
          None \<Rightarrow> Some Success
        | Some k \<Rightarrow> Some (Failure k))"
proof (induction ts)
  case Nil
  show ?case by simp
next
  case (Cons t ts)
  then obtain cs where cs: "t_containers t = Some cs" "list_all exit_code_present cs"
    by (cases "t_containers t") simp_all
  from Cons have IH: "verdict_of (check_tasks ts) =
       (case first_failure (map spec_task ts) of
          None \<Rightarrow> Some Success
        | Some k \<Rightarrow> Some (Failure k))"
    by simp
  have g: "get_default (t_containers t) [] = cs"
    using cs(1) by (simp add: get_default_def)
  note t = spec_task_def [of t]
  show ?case
  proof (cases "re_match_host (get_default (t_stoppedReason t) [])")
    case True
    then show ?thesis by (simp add: t)
  next
    case False
    show ?thesis
    proof (cases "check_containers t cs")
      case (Inl e)
      with check_containers_first_failure [OF cs(2), of t] False cs(1) g show ?thesis
        using verdict_of_Inl [of e] by (simp add: t split: option.splits)
    next
      case (Inr u)
      with check_containers_first_failure [OF cs(2), of t] False cs(1) g IH show ?thesis
        by (simp add: t split: option.splits)
    qed
  qed
qed

text \<open>
  On the responses in which the keys read by subscript are there, \<^verbatim>\<open>_check_success_task\<close>
  gives the verdict of the specification: the checks are made in its order and the first
  failure is the one reported.
\<close>

lemma check_response_first_match:
  "subscripts_present response \<Longrightarrow>
     verdict_of (check_response response) = Some (spec_verdict response)"
proof -
  assume p: "subscripts_present response"
  then obtain ts where ts: "d_tasks response = Some ts"
    by (cases "d_tasks response") (simp_all add: subscripts_present_def)
  with p have "verdict_of (check_tasks ts) =
       (case first_failure (map spec_task ts) of
          None \<Rightarrow> Some Success
        | Some k \<Rightarrow> Some (Failure k))"
    by (intro check_tasks_first_failure) (simp add: subscripts_present_def)
  with ts show ?thesis
    by (simp add: check_response_def [of response] spec_verdict_def [of response]
          get_default_def split: option.splits)
qed

text \<open>The first two checks need no key to be there.\<close>

lemma check_response_failures_first:
  "d_failures response = Some (f # fs) \<Longrightarrow>
     check_response response = Inl (AirflowException (Response response))"
  by (simp add: check_response_def get_default_def)

lemma check_tasks_host_terminated:
  "re_match_host reason \<Longrightarrow> t_stoppedReason t = Some reason \<Longrightarrow>
     check_tasks (t # ts) = Inl (AirflowException (Host_Instance_Terminated reason))"
  by (simp add: get_default_def)

text \<open>
  C1. The order of the checks is the one of \<open>check_response_first_match\<close> as long as every
  stopped container has its exit code. Here the only container was stopped before it ran:
  it has no exit code, and its reason holds \<^verbatim>\<open>Error\<close>. The first check of the
  specification that matches is the one on the reason, but \<^verbatim>\<open>_check_success_task\<close> reads
  \<^verbatim>\<open>container['exitCode']\<close> first and ends with a \<^verbatim>\<open>KeyError\<close>, which is no verdict.
\<close>

theorem first_match_lost_without_exit_code:
  "spec_verdict (one_container (never_ran (Some ''CannotPullContainerError: pull access denied'')))
     = Failure Container_Launch_Error
   \<and> check_response (one_container (never_ran (Some ''CannotPullContainerError: pull access denied'')))
     = Inl (KeyError ''exitCode'')
   \<and> verdict_of (check_response
                   (one_container (never_ran (Some ''CannotPullContainerError: pull access denied''))))
     = None"
  by (simp add: spec_verdict_def spec_task_def spec_container_def check_response_def
        stopped_nonzero_def one_container_def one_task_def never_ran_def string_defs)

text \<open>
  C7. \<^verbatim>\<open>_check_success_task\<close> is not total on the task descriptions: on a stopped container
  without an exit code it ends with the \<^verbatim>\<open>KeyError\<close> of \<^verbatim>\<open>container['exitCode']\<close>, which is
  neither success nor one of its classified failures.
\<close>

theorem check_success_task_key_error:
  "check_response (one_container (never_ran None)) = Inl (KeyError ''exitCode'')
   \<and> fst (check_success_task (sample_services started (one_container (never_ran None)))
            (attached (Some ''task/new'') (sample_state sample_args Map.empty)))
     = Inl (KeyError ''exitCode'')
   \<and> verdict_of (Inl (KeyError ''exitCode'')) = None"
  by (simp add: check_success_task_attached sample_defs check_response_def stopped_nonzero_def
        string_defs)

end
